theory Spec2Isabelle
  imports Complex_Main "HOL-Library.Multiset" "HOL-Library.Char_ord" "HOL-Library.List_Lexorder"
begin

section \<open>JavaScript primitives used by the two services\<close>

text \<open>
  Numbers are modelled as reals: sums, differences, quotients and comparisons are exact.
  Strings are lists of characters; trimming and case conversion are those of the ASCII
  range, which is all the six dimension codes, the Likert letters and the question kinds
  need.
\<close>

definition isWhitespace :: "char \<Rightarrow> bool" where
  "isWhitespace c =
     (c \<in> set [CHR 0x09, CHR 0x0A, CHR 0x0B, CHR 0x0C, CHR 0x0D, CHR '' ''])"

definition trim :: "string \<Rightarrow> string" where
  "trim s = rev (dropWhile isWhitespace (rev (dropWhile isWhitespace s)))"

definition upperChar :: "char \<Rightarrow> char" where
  "upperChar c =
     (case map_of (zip ''abcdefghijklmnopqrstuvwxyz'' ''ABCDEFGHIJKLMNOPQRSTUVWXYZ'') c of
        Some u \<Rightarrow> u
      | None \<Rightarrow> c)"

definition toUpperCase :: "string \<Rightarrow> string" where
  "toUpperCase s = map upperChar s"

text \<open>\<^verbatim>\<open>Math.round\<close>: the nearest integer, a tie going up.\<close>

definition Math_round :: "real \<Rightarrow> real" where
  "Math_round x = of_int \<lfloor>x + 1 / 2\<rfloor>"

text \<open>\<^verbatim>\<open>Array.prototype.findIndex\<close> and \<^verbatim>\<open>indexOf\<close>: the first position, or -1.\<close>

fun findIndex :: "('a \<Rightarrow> bool) \<Rightarrow> 'a list \<Rightarrow> int" where
  "findIndex P [] = - 1"
| "findIndex P (x # xs) =
     (if P x then 0 else (let r = findIndex P xs in if r < 0 then - 1 else r + 1))"

definition indexOf :: "'a list \<Rightarrow> 'a \<Rightarrow> int" where
  "indexOf xs v = findIndex (\<lambda>y. y = v) xs"

text \<open>\<^verbatim>\<open>xs.filter((v, i, a) => f(v, i, a))\<close>: the callback also sees the index and the array.\<close>

definition filterIdx :: "('a \<Rightarrow> nat \<Rightarrow> 'a list \<Rightarrow> bool) \<Rightarrow> 'a list \<Rightarrow> 'a list" where
  "filterIdx f xs = map fst (filter (\<lambda>(v, i). f v i xs) (zip xs [0..<length xs]))"

text \<open>\<^verbatim>\<open>xs[i]\<close>, which is \<^verbatim>\<open>undefined\<close> out of range.\<close>

definition elemAt :: "'a list \<Rightarrow> nat \<Rightarrow> 'a option" where
  "elemAt xs i = (if i < length xs then Some (xs ! i) else None)"

text \<open>A string or \<^verbatim>\<open>undefined\<close> is truthy when it is a non-empty string.\<close>

definition truthy :: "string option \<Rightarrow> bool" where
  "truthy v = (case v of None \<Rightarrow> False | Some s \<Rightarrow> s \<noteq> [])"

definition js_or :: "string option \<Rightarrow> string option \<Rightarrow> string option" where
  "js_or a b = (if truthy a then a else b)"

text \<open>\<^verbatim>\<open>s.split(c)\<close> for a one-character separator: never an empty array.\<close>

fun splitOn :: "char \<Rightarrow> string \<Rightarrow> string list" where
  "splitOn c [] = [[]]"
| "splitOn c (x # xs) =
     (let r = splitOn c xs in if x = c then [] # r else (x # hd r) # tl r)"

section \<open>ScoreAggregator: \<^verbatim>\<open>services/riasecScoring.js\<close>\<close>

subsection \<open>The rows the service reads and writes\<close>

text \<open>
  Modelled from the spec: the models \<^verbatim>\<open>Section\<close>, \<^verbatim>\<open>Question\<close> and \<^verbatim>\<open>Answer\<close>
  (\<^verbatim>\<open>models/index.js\<close> is not among the sources). A row has the fields the service reads:
  a question belongs to one section, has an optional category and a kind; an answer belongs
  to one attempt and one question and holds a text. The text is taken as nullable: a missing
  text is what makes the service's own code throw.
\<close>

record section_row =
  s_id :: nat
  s_order_index :: int
  s_name :: string

record question =
  q_section_id :: nat
  q_category :: "string option"
  q_question_type :: string
  q_order_index :: int

record answer =
  a_test_attempt_id :: nat
  a_question_id :: nat
  a_answer_text :: "string option"

text \<open>
  The store: the section catalog, the questions keyed by their primary key, the answers.
\<close>

record db =
  sections :: "section_row list"
  questions :: "nat \<rightharpoonup> question"
  answers :: "answer list"

text \<open>
  One element of \<^verbatim>\<open>answers\<close> as the service holds it in memory: the answer with its
  joined question (\<^verbatim>\<open>answer.question\<close>) and the question's section
  (\<^verbatim>\<open>answer.question.section\<close>).
\<close>

record loaded =
  la_answer_text :: "string option"
  la_question_id :: nat
  la_question :: question
  la_section :: section_row

text \<open>The six scores, and the result object of the service: the scores and \<^verbatim>\<open>error\<close>.\<close>

record scores =
  R :: real
  I :: real
  A :: real
  S :: real
  E :: real
  C :: real

record riasec_result = scores +
  error :: "string option"

definition zeroResult :: "string option \<Rightarrow> riasec_result" where
  "zeroResult e = \<lparr>R = 0, I = 0, A = 0, S = 0, E = 0, C = 0, error = e\<rparr>"

subsection \<open>The two queries\<close>

text \<open>\<^verbatim>\<open>Section.findAll({ where: { order_index: [5..10] }, order: [['order_index','ASC']] })\<close>\<close>

definition findRiasecSections :: "db \<Rightarrow> section_row list" where
  "findRiasecSections d =
     sort_key s_order_index
       (filter (\<lambda>s. s_order_index s \<in> set [5, 6, 7, 8, 9, 10]) (sections d))"

text \<open>
  \<^verbatim>\<open>Answer.findAll\<close> of one attempt, with the question required to lie in one of
  \<^verbatim>\<open>sectionIds\<close> and its section required: both joins are inner joins, on primary keys.
\<close>

definition loadAnswer :: "db \<Rightarrow> nat \<Rightarrow> nat list \<Rightarrow> answer \<Rightarrow> loaded option" where
  "loadAnswer d testAttemptId sectionIds a =
     (if a_test_attempt_id a \<noteq> testAttemptId then None
      else (case questions d (a_question_id a) of
        None \<Rightarrow> None
      | Some q \<Rightarrow>
          if q_section_id q \<notin> set sectionIds then None
          else (case find (\<lambda>s. s_id s = q_section_id q) (sections d) of
            None \<Rightarrow> None
          | Some s \<Rightarrow>
              Some \<lparr>la_answer_text = a_answer_text a, la_question_id = a_question_id a,
                    la_question = q, la_section = s\<rparr>)))"

definition findAnswers :: "db \<Rightarrow> nat \<Rightarrow> nat list \<Rightarrow> loaded list" where
  "findAnswers d testAttemptId sectionIds =
     List.map_filter (loadAnswer d testAttemptId sectionIds) (answers d)"

subsection \<open>Self-healing of the question categories\<close>

definition orderToRIASEC :: "int \<Rightarrow> string option" where
  "orderToRIASEC n =
     map_of [(5, ''R''), (6, ''I''), (7, ''A''), (8, ''S''), (9, ''E''), (10, ''C'')] n"

definition riasecCodes :: "string list" where
  "riasecCodes = [''R'', ''I'', ''A'', ''S'', ''E'', ''C'']"

text \<open>\<^verbatim>\<open>question.category ? question.category.trim().toUpperCase() : null\<close>\<close>

definition currentCategory :: "question \<Rightarrow> string option" where
  "currentCategory q =
     (if truthy (q_category q) then map_option (\<lambda>c. toUpperCase (trim c)) (q_category q)
      else None)"

text \<open>The negation of \<^verbatim>\<open>!category || !['R','I','A','S','E','C'].includes(category)\<close>.\<close>

definition validCategory :: "string option \<Rightarrow> bool" where
  "validCategory c = (truthy c \<and> (case c of None \<Rightarrow> False | Some s \<Rightarrow> s \<in> set riasecCodes))"

text \<open>
  The first loop: which questions get which category. A loaded answer has its question
  and its section, both joins being required.
\<close>

definition needsCategory :: "loaded \<Rightarrow> (nat \<times> string) option" where
  "needsCategory r =
     (case orderToRIASEC (s_order_index (la_section r)) of
        None \<Rightarrow> None
      | Some riasecCode \<Rightarrow>
          if \<not> validCategory (currentCategory (la_question r))
          then Some (la_question_id r, riasecCode)
          else None)"

definition questionIdsToUpdate :: "loaded list \<Rightarrow> (nat \<times> string) list" where
  "questionIdsToUpdate rows = List.map_filter needsCategory rows"

text \<open>\<^verbatim>\<open>Question.update({ category }, { where: { id } })\<close>\<close>

definition Question_update :: "db \<Rightarrow> nat \<Rightarrow> string \<Rightarrow> db" where
  "Question_update d i c =
     (case questions d i of
        None \<Rightarrow> d
      | Some q \<Rightarrow> d\<lparr>questions := (questions d)(i \<mapsto> q\<lparr>q_category := Some c\<rparr>)\<rparr>)"

text \<open>
  The second loop. A write may fail; the failure is caught and logged, and only the
  writes that succeed are counted. \<open>writeOk i\<close> says whether the store accepts the write
  to question \<open>i\<close>.
\<close>

fun applyUpdates :: "(nat \<Rightarrow> bool) \<Rightarrow> (nat \<times> string) list \<Rightarrow> db \<Rightarrow> nat \<Rightarrow> db \<times> nat" where
  "applyUpdates writeOk [] d categoriesAssigned = (d, categoriesAssigned)"
| "applyUpdates writeOk ((i, c) # us) d categoriesAssigned =
     (if writeOk i then applyUpdates writeOk us (Question_update d i c) (categoriesAssigned + 1)
      else applyUpdates writeOk us d categoriesAssigned)"

text \<open>
  \<^verbatim>\<open>answer.question.reload()\<close> reads the question again by its primary key. No write
  of this service deletes a question, so the row is there.
\<close>

definition reload :: "db \<Rightarrow> loaded \<Rightarrow> loaded" where
  "reload d r =
     (case questions d (la_question_id r) of
        None \<Rightarrow> r
      | Some q \<Rightarrow> r\<lparr>la_question := q\<rparr>)"

definition selfHeal :: "(nat \<Rightarrow> bool) \<Rightarrow> db \<Rightarrow> loaded list \<Rightarrow> db \<times> loaded list" where
  "selfHeal writeOk d rows =
     (let (d', categoriesAssigned) = applyUpdates writeOk (questionIdsToUpdate rows) d 0
      in if categoriesAssigned > 0 then (d', map (reload d') rows) else (d', rows))"

subsection \<open>Per-answer value\<close>

definition likertMap :: "string \<Rightarrow> real option" where
  "likertMap = map_of [(''A'', 1), (''B'', 2), (''C'', 3), (''D'', 4), (''E'', 5)]"

text \<open>
  \<open>parseFloat\<close> is JavaScript's, a parameter here; \<open>None\<close> is \<^verbatim>\<open>NaN\<close>, and the
  infinite values it can read are left out. A missing \<^verbatim>\<open>answer_text\<close> makes
  \<^verbatim>\<open>.trim()\<close> throw a \<^verbatim>\<open>TypeError\<close>, here \<open>Inl\<close> of its message.
\<close>

definition typeErrorMessage :: string where
  "typeErrorMessage = ''Cannot read properties of null (reading 'trim')''"

definition answerValue :: "(string \<Rightarrow> real option) \<Rightarrow> string \<Rightarrow> string option \<Rightarrow> string + real" where
  "answerValue parseFloat question_type answer_text =
     (if question_type = ''LIKERT_SCALE'' then
        (case answer_text of
           None \<Rightarrow> Inl typeErrorMessage
         | Some t \<Rightarrow>
             (case likertMap (toUpperCase (trim t)) of
                Some v \<Rightarrow> Inr v
              | None \<Rightarrow> Inr 3))
      else if question_type = ''MULTIPLE_CHOICE'' then
        (case answer_text of
           None \<Rightarrow> Inl typeErrorMessage
         | Some t \<Rightarrow>
             (case likertMap (toUpperCase (trim t)) of
                Some v \<Rightarrow> Inr v
              | None \<Rightarrow> (case parseFloat t of Some x \<Rightarrow> Inr x | None \<Rightarrow> Inr 0)))
      else Inr 0)"

subsection \<open>Aggregation and normalisation\<close>

type_synonym accumulators = "string \<rightharpoonup> real \<times> nat"

definition initialScores :: accumulators where
  "initialScores =
     [''R'' \<mapsto> (0, 0), ''I'' \<mapsto> (0, 0), ''A'' \<mapsto> (0, 0),
      ''S'' \<mapsto> (0, 0), ''E'' \<mapsto> (0, 0), ''C'' \<mapsto> (0, 0)]"

text \<open>
  The scoring loop. A question without a valid category is skipped; an exception of the
  value extraction leaves the loop.
\<close>

fun accumulate :: "(string \<Rightarrow> real option) \<Rightarrow> loaded list \<Rightarrow> accumulators \<Rightarrow> string + accumulators" where
  "accumulate parseFloat [] acc = Inr acc"
| "accumulate parseFloat (r # rows) acc =
     (let category = currentCategory (la_question r)
      in if \<not> validCategory category then accumulate parseFloat rows acc
         else (case answerValue parseFloat (q_question_type (la_question r)) (la_answer_text r) of
           Inl e \<Rightarrow> Inl e
         | Inr v \<Rightarrow>
             (case acc (the category) of
                None \<Rightarrow> accumulate parseFloat rows acc
              | Some (tot, cnt) \<Rightarrow>
                  accumulate parseFloat rows (acc(the category \<mapsto> (tot + v, cnt + 1))))))"

text \<open>
  \<^verbatim>\<open>Math.round(((avgScore - 1) / 4) * 100 * 100) / 100\<close>, then the clamp to 0..100;
  a dimension without answers keeps its initial 0.
\<close>

definition percentage :: "real \<times> nat \<Rightarrow> real" where
  "percentage data =
     (case data of (tot, cnt) \<Rightarrow>
        if cnt > 0 then
          (let avgScore = tot / real cnt;
               rounded = Math_round (((avgScore - 1) / 4) * 100 * 100) / 100
           in min 100 (max 0 rounded))
        else 0)"

definition dimensionScore :: "accumulators \<Rightarrow> string \<Rightarrow> real" where
  "dimensionScore acc c = (case acc c of None \<Rightarrow> 0 | Some data \<Rightarrow> percentage data)"

definition totalCount :: "accumulators \<Rightarrow> nat" where
  "totalCount acc = sum_list (map (\<lambda>c. case acc c of None \<Rightarrow> 0 | Some (t, n) \<Rightarrow> n) riasecCodes)"

definition noCategoryMessage :: string where
  "noCategoryMessage = ''No valid RIASEC category questions found in RIASEC sections (5-10)''"

definition finalize :: "accumulators \<Rightarrow> riasec_result" where
  "finalize acc =
     \<lparr>R = dimensionScore acc ''R'', I = dimensionScore acc ''I'',
      A = dimensionScore acc ''A'', S = dimensionScore acc ''S'',
      E = dimensionScore acc ''E'', C = dimensionScore acc ''C'',
      error = (if totalCount acc = 0 then Some noCategoryMessage else None)\<rparr>"

subsection \<open>\<^verbatim>\<open>calculateRIASECScores\<close>\<close>

text \<open>
  The rows the scoring loop runs over, once sections and answers have been found.
\<close>

definition loadedAnswers :: "db \<Rightarrow> nat \<Rightarrow> loaded list" where
  "loadedAnswers d testAttemptId =
     findAnswers d testAttemptId (map s_id (findRiasecSections d))"

text \<open>
  The body of the \<^verbatim>\<open>try\<close> block: the result or the exception, and the store as the
  writes left it. The store answers every read; the exception modelled is the one the code
  itself raises, on an answer without text.
\<close>

definition calculateRIASECScores_try ::
  "(string \<Rightarrow> real option) \<Rightarrow> (nat \<Rightarrow> bool) \<Rightarrow> db \<Rightarrow> nat \<Rightarrow> (string + riasec_result) \<times> db" where
  "calculateRIASECScores_try parseFloat writeOk d testAttemptId =
     (let riasecSections = findRiasecSections d
      in if riasecSections = [] then
           (Inr (zeroResult (Some ''RIASEC sections (5-10) not found'')), d)
         else
           (let sectionIds = map s_id riasecSections;
                rows = findAnswers d testAttemptId sectionIds
            in if rows = [] then
                 (Inr (zeroResult (Some ''No answers found for RIASEC section questions'')), d)
               else
                 (let (d', rows') = selfHeal writeOk d rows
                  in (case accumulate parseFloat rows' initialScores of
                       Inl e \<Rightarrow> (Inl e, d')
                     | Inr acc \<Rightarrow> (Inr (finalize acc), d')))))"

text \<open>The \<^verbatim>\<open>catch\<close> turns every exception into an all-zero result with an error.\<close>

definition calculateRIASECScores ::
  "(string \<Rightarrow> real option) \<Rightarrow> (nat \<Rightarrow> bool) \<Rightarrow> db \<Rightarrow> nat \<Rightarrow> riasec_result \<times> db" where
  "calculateRIASECScores parseFloat writeOk d testAttemptId =
     (case calculateRIASECScores_try parseFloat writeOk d testAttemptId of
        (Inl message, d') \<Rightarrow>
          (zeroResult (Some (''Failed to calculate RIASEC scores: '' @ message)), d')
      | (Inr result, d') \<Rightarrow> (result, d'))"

section \<open>ReportComposer: \<^verbatim>\<open>services/riasecReportGenerator.js\<close>\<close>

definition getMatchLevel :: "real \<Rightarrow> string" where
  "getMatchLevel s =
     (if s \<ge> 30 then ''HIGH MATCH'' else if s \<ge> 15 then ''MODERATE MATCH'' else ''LOW MATCH'')"

subsection \<open>Ranking\<close>

record score_entry =
  e_code :: string
  e_score :: real
  e_label :: string
  e_title :: string

definition scoreMap :: "scores \<Rightarrow> score_entry list" where
  "scoreMap (sc :: scores) =
     [\<lparr>e_code = ''R'', e_score = R sc, e_label = ''Realistic'', e_title = ''Realistic (Doers)''\<rparr>,
      \<lparr>e_code = ''I'', e_score = I sc, e_label = ''Investigative'',
        e_title = ''Investigative (Thinkers)''\<rparr>,
      \<lparr>e_code = ''A'', e_score = A sc, e_label = ''Artistic'', e_title = ''Artistic (Creators)''\<rparr>,
      \<lparr>e_code = ''S'', e_score = S sc, e_label = ''Social'', e_title = ''Social (Helpers)''\<rparr>,
      \<lparr>e_code = ''E'', e_score = E sc, e_label = ''Enterprising'',
        e_title = ''Enterprising (Persuaders)''\<rparr>,
      \<lparr>e_code = ''C'', e_score = C sc, e_label = ''Conventional'',
        e_title = ''Conventional (Organizers)''\<rparr>]"

text \<open>
  \<^verbatim>\<open>a.localeCompare(b)\<close>, as the order of the character codes: on the six upper-case
  one-letter codes that is the alphabetical order every locale gives.
\<close>

fun localeCompare :: "string \<Rightarrow> string \<Rightarrow> real" where
  "localeCompare [] [] = 0"
| "localeCompare [] (y # ys) = - 1"
| "localeCompare (x # xs) [] = 1"
| "localeCompare (x # xs) (y # ys) =
     (if (of_char x :: nat) < of_char y then - 1
      else if (of_char y :: nat) < of_char x then 1
      else localeCompare xs ys)"

text \<open>The comparator handed to \<^verbatim>\<open>sort\<close>.\<close>

definition compareFn :: "score_entry \<Rightarrow> score_entry \<Rightarrow> real" where
  "compareFn a b =
     (if e_score b \<noteq> e_score a then e_score b - e_score a
      else localeCompare (e_code a) (e_code b))"

text \<open>
  \<^verbatim>\<open>Array.prototype.sort(cmp)\<close> is a stable sort that puts \<open>a\<close> before \<open>b\<close> when
  \<open>cmp a b < 0\<close>; it is modelled by stable insertion. The comparator of the service is a
  total order on the six entries, so every sorting algorithm gives the same array.
\<close>

fun insertBy :: "('a \<Rightarrow> 'a \<Rightarrow> real) \<Rightarrow> 'a \<Rightarrow> 'a list \<Rightarrow> 'a list" where
  "insertBy cmp x [] = [x]"
| "insertBy cmp x (y # ys) = (if cmp x y \<le> 0 then x # y # ys else y # insertBy cmp x ys)"

definition sortBy :: "('a \<Rightarrow> 'a \<Rightarrow> real) \<Rightarrow> 'a list \<Rightarrow> 'a list" where
  "sortBy cmp xs = foldr (insertBy cmp) xs []"

definition sortedScores :: "scores \<Rightarrow> score_entry list" where
  "sortedScores sc = sortBy compareFn (scoreMap sc)"

record top_trait =
  t_code :: string
  t_label :: string
  t_score :: real

definition topTraits :: "scores \<Rightarrow> top_trait list" where
  "topTraits sc =
     map (\<lambda>item. \<lparr>t_code = e_code item, t_label = e_label item, t_score = Math_round (e_score item)\<rparr>)
       (take 3 (sortedScores sc))"

subsection \<open>Decision risk\<close>


subsection \<open>Career pathways\<close>

record confidence_result =
  level :: string
  label :: string

text \<open>\<^verbatim>\<open>allScores[code] || 0\<close>\<close>

definition scoreOf :: "'a scores_scheme \<Rightarrow> string \<Rightarrow> real" where
  "scoreOf allScores c =
     (if c = ''R'' then R allScores else if c = ''I'' then I allScores
      else if c = ''A'' then A allScores else if c = ''S'' then S allScores
      else if c = ''E'' then E allScores else if c = ''C'' then C allScores else 0)"

text \<open>\<^verbatim>\<open>top3Scores[i] || 0\<close>\<close>

definition numAt :: "real list \<Rightarrow> nat \<Rightarrow> real" where
  "numAt xs i = (case elemAt xs i of None \<Rightarrow> 0 | Some v \<Rightarrow> v)"

definition calculateConfidence :: "string \<Rightarrow> string list \<Rightarrow> real list \<Rightarrow> scores \<Rightarrow> confidence_result" where
  "calculateConfidence riasecMix top3Codes top3Scores allScores =
     (let pathwayCodes = splitOn CHR ''-'' riasecMix
      in if length pathwayCodes < 2 then \<lparr>level = ''LOW'', label = ''Low Confidence''\<rparr>
         else
          (let primaryCode = pathwayCodes ! 0;
               secondaryCode = pathwayCodes ! 1;
               tertiaryCode = elemAt pathwayCodes 2;
               primaryScore = scoreOf allScores primaryCode;
               secondaryScore = scoreOf allScores secondaryCode;
               tertiaryScore = (if truthy tertiaryCode then scoreOf allScores (the tertiaryCode) else 0);
               topScore = numAt top3Scores 0;
               secondScore = numAt top3Scores 1;
               thirdScore = numAt top3Scores 2;
               primaryRank = indexOf top3Codes primaryCode;
               secondaryRank = indexOf top3Codes secondaryCode;
               tertiaryRank = (if truthy tertiaryCode then indexOf top3Codes (the tertiaryCode) else - 1);
               primaryGap = (if primaryRank = 0 then 0 else topScore - primaryScore);
               secondaryGap =
                 (if secondaryRank \<ge> 0
                  then \<bar>(if secondaryRank = 0 then topScore
                         else if secondaryRank = 1 then secondScore else thirdScore) - secondaryScore\<bar>
                  else topScore - secondaryScore);
               matchesInTop3 = length (filter (\<lambda>r. r \<ge> 0) [primaryRank, secondaryRank, tertiaryRank]);
               avgScore = (primaryScore + secondaryScore + tertiaryScore)
                            / (if truthy tertiaryCode then 3 else 2);
               avgTopScore = (topScore + secondScore + thirdScore) / 3;
               scoreFit = avgScore / max avgTopScore 1;
               gapPenalty = (primaryGap + secondaryGap) / max topScore 1
           in if primaryRank = 0 \<and> secondaryRank = 1 \<and> matchesInTop3 \<ge> 2 \<and> primaryScore \<ge> 30
                 \<and> scoreFit \<ge> 85 / 100 \<and> gapPenalty \<le> 15 / 100
              then \<lparr>level = ''HIGH'', label = ''High Confidence''\<rparr>
              else if primaryRank = 0 \<and> matchesInTop3 \<ge> 2 \<and> primaryScore \<ge> 25
                 \<and> scoreFit \<ge> 70 / 100 \<and> gapPenalty \<le> 25 / 100
              then \<lparr>level = ''MODERATE'', label = ''Moderate Confidence''\<rparr>
              else if primaryRank \<ge> 0 \<and> primaryRank \<le> 2 \<and> matchesInTop3 \<ge> 1 \<and> primaryScore \<ge> 20
                 \<and> scoreFit \<ge> 60 / 100
              then \<lparr>level = ''MODERATE'', label = ''Moderate Confidence''\<rparr>
              else \<lparr>level = ''LOW'', label = ''Low Confidence''\<rparr>))"

definition allDegrees :: "string list" where
  "allDegrees =
     [''BCA'', ''MCA'', ''M.Sc (IT)'', ''M.Sc (Computer Science)'', ''B.Tech (CS)'', ''B.Tech (IT)'',
      ''B.E. (Computer Engineering)'', ''B.Sc (IT)'', ''B.Sc (Computer Science)'', ''B.Voc (SD)'']"

definition allRoles :: "string list" where
  "allRoles =
     [''Full Stack Developer'', ''Frontend Developer'', ''Backend Developer'',
      ''Mobile App Developer'', ''Data Analyst'', ''Data Scientist'', ''Data Engineer'',
      ''DevOps Engineer'', ''Cloud Engineer'', ''Web Designer'', ''UI/UX Designer'',
      ''Product Designer'', ''Software Tester'', ''Cybersecurity Analyst'', ''AI / ML Engineer'',
      ''Game Developer'']"

definition calculateDegree :: "string \<Rightarrow> string \<Rightarrow> string" where
  "calculateDegree primary secondary =
     (if primary = ''I'' \<and> secondary = ''A'' then allDegrees ! 4
      else if primary = ''A'' \<and> secondary = ''I'' then allDegrees ! 0
      else if primary = ''I'' \<and> secondary = ''C'' then allDegrees ! 2
      else if primary = ''C'' \<and> secondary = ''I'' then allDegrees ! 5
      else if primary = ''A'' \<and> secondary = ''C'' then allDegrees ! 0
      else if primary = ''C'' \<and> secondary = ''A'' then allDegrees ! 9
      else if primary = ''R'' \<and> secondary = ''I'' then allDegrees ! 6
      else if primary = ''I'' \<and> secondary = ''R'' then allDegrees ! 4
      else if primary = ''R'' \<and> secondary = ''A'' then allDegrees ! 6
      else if primary = ''A'' \<and> secondary = ''R'' then allDegrees ! 0
      else if primary = ''R'' \<and> secondary = ''C'' then allDegrees ! 6
      else if primary = ''C'' \<and> secondary = ''R'' then allDegrees ! 5
      else if primary = ''S'' \<and> secondary = ''I'' then allDegrees ! 8
      else if primary = ''I'' \<and> secondary = ''S'' then allDegrees ! 1
      else if primary = ''S'' \<and> secondary = ''A'' then allDegrees ! 7
      else if primary = ''A'' \<and> secondary = ''S'' then allDegrees ! 0
      else if primary = ''S'' \<and> secondary = ''C'' then allDegrees ! 7
      else if primary = ''C'' \<and> secondary = ''S'' then allDegrees ! 5
      else if primary = ''E'' \<and> secondary = ''I'' then allDegrees ! 4
      else if primary = ''E'' \<and> secondary = ''A'' then allDegrees ! 0
      else if primary = ''E'' \<and> secondary = ''C'' then allDegrees ! 5
      else if primary = ''E'' \<and> secondary = ''S'' then allDegrees ! 7
      else if primary = ''E'' \<and> secondary = ''R'' then allDegrees ! 6
      else if primary = ''I'' \<and> secondary = ''E'' then allDegrees ! 4
      else if primary = ''A'' \<and> secondary = ''E'' then allDegrees ! 0
      else if primary = ''C'' \<and> secondary = ''E'' then allDegrees ! 5
      else if primary = ''S'' \<and> secondary = ''E'' then allDegrees ! 7
      else if primary = ''R'' \<and> secondary = ''E'' then allDegrees ! 6
      else allDegrees ! 4)"

definition calculateRole :: "string \<Rightarrow> string \<Rightarrow> string" where
  "calculateRole primary secondary =
     (if primary = ''I'' \<and> secondary = ''A'' then ''Data Scientist''
      else if primary = ''I'' \<and> secondary = ''C'' then ''Data Engineer''
      else if primary = ''A'' \<and> secondary = ''I'' then ''UI/UX Designer''
      else if primary = ''A'' \<and> secondary = ''C'' then ''Web Designer''
      else if primary = ''C'' \<and> secondary = ''I'' then ''Data Analyst''
      else if primary = ''C'' \<and> secondary = ''A'' then ''Software Tester''
      else if primary = ''I'' \<and> secondary = ''R'' then ''AI / ML Engineer''
      else if primary = ''R'' \<and> secondary = ''I'' then ''DevOps Engineer''
      else if primary = ''A'' \<and> secondary = ''S'' then ''Product Designer''
      else if primary = ''S'' \<and> secondary = ''A'' then ''Frontend Developer''
      else if primary = ''I'' \<and> secondary = ''S'' then ''Backend Developer''
      else if primary = ''S'' \<and> secondary = ''I'' then ''Full Stack Developer''
      else if primary = ''R'' \<and> secondary = ''C'' then ''Cybersecurity Analyst''
      else if primary = ''C'' \<and> secondary = ''R'' then ''Backend Developer''
      else if primary = ''A'' \<and> secondary = ''R'' then ''Game Developer''
      else if primary = ''R'' \<and> secondary = ''A'' then ''Cybersecurity Analyst''
      else if primary = ''S'' \<and> secondary = ''C'' then ''Mobile App Developer''
      else if primary = ''C'' \<and> secondary = ''S'' then ''Frontend Developer''
      else ''Full Stack Developer'')"

definition personaMap :: "(string \<times> string) list" where
  "personaMap =
     [(''Data Scientist'', ''The Insight Architect''),
      (''Data Engineer'', ''The Analytical Strategist''),
      (''UI/UX Designer'', ''The Creative Innovator''),
      (''Web Designer'', ''The Design Visionary''),
      (''Data Analyst'', ''The Precision Analyst''),
      (''Software Tester'', ''The Quality Specialist''),
      (''AI / ML Engineer'', ''The Intelligent Builder''),
      (''DevOps Engineer'', ''The Technical Architect''),
      (''Product Designer'', ''The User Experience Creator''),
      (''Frontend Developer'', ''The Interface Designer''),
      (''Backend Developer'', ''The System Architect''),
      (''Full Stack Developer'', ''The Solution Integrator''),
      (''Mobile App Developer'', ''The Mobile Innovator''),
      (''Cloud Engineer'', ''The Infrastructure Specialist''),
      (''Cybersecurity Analyst'', ''The Security Guardian''),
      (''Game Developer'', ''The Interactive Creator'')]"

definition calculatePersona :: "string \<Rightarrow> string" where
  "calculatePersona role =
     the (js_or (map_of personaMap role) (Some ''The Technical Professional''))"

definition focusMap :: "(string \<times> string) list" where
  "focusMap =
     [(''Data Scientist'', ''Analyzing complex data patterns and creating innovative solutions through research and creative problem-solving.''),
      (''Data Engineer'', ''Building robust data infrastructure and systems with analytical precision and structured methodologies.''),
      (''UI/UX Designer'', ''Designing intuitive user experiences by combining creative vision with analytical insights.''),
      (''Web Designer'', ''Creating visually compelling digital products through systematic design processes.''),
      (''Data Analyst'', ''Ensuring data quality and system reliability through meticulous analysis and testing.''),
      (''Software Tester'', ''Maintaining software quality standards through systematic testing and creative problem-solving approaches.''),
      (''AI / ML Engineer'', ''Developing intelligent systems and algorithms that solve real-world technical challenges.''),
      (''DevOps Engineer'', ''Architecting scalable infrastructure solutions with technical expertise and innovative approaches.''),
      (''Product Designer'', ''Creating user-centered design solutions that balance creativity with technical feasibility.''),
      (''Frontend Developer'', ''Building engaging user interfaces that combine aesthetic design with functional requirements.''),
      (''Backend Developer'', ''Designing and implementing backend systems that integrate complex technical requirements.''),
      (''Full Stack Developer'', ''Developing end-to-end solutions that seamlessly connect frontend and backend technologies.''),
      (''Mobile App Developer'', ''Creating mobile applications that deliver seamless user experiences across platforms.''),
      (''Cloud Engineer'', ''Designing and managing cloud infrastructure solutions for scalable and reliable systems.''),
      (''Cybersecurity Analyst'', ''Protecting digital assets through systematic security analysis and threat mitigation.''),
      (''Game Developer'', ''Creating interactive entertainment experiences through creative design and technical implementation.'')]"

definition calculateFocus :: "string \<Rightarrow> string" where
  "calculateFocus role =
     the (js_or (map_of focusMap role)
            (Some ''Developing software solutions through systematic analysis and implementation.''))"

record role_item =
  ri_role :: string
  ri_riasecMix :: string

record pathway =
  degree :: string
  riasecMix :: string
  careerRole :: string
  professionalPersona :: string
  coreTasksFocus :: string
  confidence :: string
  confidenceLevel :: string

text \<open>\<^verbatim>\<open>s || d\<close> on strings.\<close>

definition orDefault :: "string \<Rightarrow> string \<Rightarrow> string" where
  "orDefault s d = (if s \<noteq> [] then s else d)"

definition primaryRiasecMix :: "string list \<Rightarrow> string" where
  "primaryRiasecMix top3Codes = top3Codes ! 0 @ ''-'' @ top3Codes ! 1 @ ''-'' @ top3Codes ! 2"

definition roleData :: "string list \<Rightarrow> role_item list" where
  "roleData top3Codes =
     filterIdx (\<lambda>item index self. int index = findIndex (\<lambda>i. ri_role i = ri_role item) self)
       [\<lparr>ri_role = calculateRole (top3Codes ! 0) (top3Codes ! 1),
          ri_riasecMix = primaryRiasecMix top3Codes\<rparr>,
        \<lparr>ri_role = calculateRole (top3Codes ! 0) (top3Codes ! 2),
          ri_riasecMix = primaryRiasecMix top3Codes\<rparr>,
        \<lparr>ri_role = calculateRole (top3Codes ! 1) (top3Codes ! 2),
          ri_riasecMix = primaryRiasecMix top3Codes\<rparr>]"

definition additionalRoles :: "string list \<Rightarrow> role_item list" where
  "additionalRoles top3Codes =
     (let usedRoles = set (map ri_role (roleData top3Codes))
      in map (\<lambda>role. \<lparr>ri_role = role, ri_riasecMix = primaryRiasecMix top3Codes\<rparr>)
           (take (5 - length (roleData top3Codes)) (filter (\<lambda>r. r \<notin> usedRoles) allRoles)))"

definition allRoleData :: "string list \<Rightarrow> role_item list" where
  "allRoleData top3Codes = take 5 (roleData top3Codes @ additionalRoles top3Codes)"

definition degreeCombinations :: "string list \<Rightarrow> (string \<times> string) list" where
  "degreeCombinations top3Codes =
     [(top3Codes ! 0, top3Codes ! 1), (top3Codes ! 0, top3Codes ! 2),
      (top3Codes ! 1, top3Codes ! 2), (top3Codes ! 1, top3Codes ! 0),
      (top3Codes ! 2, top3Codes ! 0), (top3Codes ! 2, top3Codes ! 1)]"

definition calculatedDegrees :: "string list \<Rightarrow> string list" where
  "calculatedDegrees top3Codes =
     filterIdx (\<lambda>v i a. indexOf a v = int i)
       (map (\<lambda>(p, s). calculateDegree p s) (degreeCombinations top3Codes))"

definition additionalDegrees :: "string list \<Rightarrow> string list" where
  "additionalDegrees top3Codes =
     filter (\<lambda>d. d \<notin> set (calculatedDegrees top3Codes)) allDegrees"

text \<open>
  The \<^verbatim>\<open>while\<close> loop that tops the degree list up to five: it stops when nothing
  is left to add, and every round adds all that is left.
\<close>

function padDegrees :: "string list \<Rightarrow> string list" where
  "padDegrees degrees =
     (if length degrees < 5 \<and> length allDegrees > 0 then
        (let remaining = filter (\<lambda>d. d \<noteq> [] \<and> d \<notin> set degrees) allDegrees
         in if remaining = [] then degrees else padDegrees (degrees @ remaining))
      else degrees)"
  by pat_completeness auto
termination
proof (relation "measure (\<lambda>degrees. length (filter (\<lambda>d. d \<noteq> [] \<and> d \<notin> set degrees) allDegrees))")
  show "wf (measure (\<lambda>degrees. length (filter (\<lambda>d. d \<noteq> [] \<and> d \<notin> set degrees) allDegrees)))"
    by simp
next
  fix degrees :: "string list" and remaining :: "string list"
  assume rem: "remaining = filter (\<lambda>d. d \<noteq> [] \<and> d \<notin> set degrees) allDegrees"
    and ne: "remaining \<noteq> []"
  have "filter (\<lambda>d. d \<noteq> [] \<and> d \<notin> set (degrees @ remaining)) allDegrees = []"
    unfolding rem by (auto simp: filter_empty_conv)
  moreover have "0 < length (filter (\<lambda>d. d \<noteq> [] \<and> d \<notin> set degrees) allDegrees)"
    using rem ne by simp
  ultimately show "(degrees @ remaining, degrees) \<in>
      measure (\<lambda>degrees. length (filter (\<lambda>d. d \<noteq> [] \<and> d \<notin> set degrees) allDegrees))"
    by simp
qed

definition degreeList :: "string list \<Rightarrow> string list" where
  "degreeList top3Codes =
     padDegrees (take 10 (calculatedDegrees top3Codes @ additionalDegrees top3Codes))"

text \<open>
  The degree of the entry at index \<open>safeIdx\<close>, given the degrees used so far;
  \<^verbatim>\<open>allDegrees.length || 1\<close> and \<^verbatim>\<open>availableDegrees.length || 1\<close> as written.
\<close>

definition lengthOr1 :: "'a list \<Rightarrow> nat" where
  "lengthOr1 xs = (if length xs = 0 then 1 else length xs)"

definition rotatedDegree :: "nat \<Rightarrow> string option" where
  "rotatedDegree safeIdx =
     (if lengthOr1 allDegrees > 0 then elemAt allDegrees (safeIdx mod lengthOr1 allDegrees)
      else js_or (elemAt allDegrees 0) (Some ''B.Tech (CS)''))"

definition pickDegree :: "string list \<Rightarrow> nat \<Rightarrow> string set \<Rightarrow> string" where
  "pickDegree degrees safeIdx usedDegrees =
     (let degree0 = js_or (elemAt degrees safeIdx) (rotatedDegree safeIdx);
          degree1 =
            (if \<not> truthy degree0 \<or> the degree0 \<in> usedDegrees then
               (let availableDegrees = filter (\<lambda>d. d \<noteq> [] \<and> d \<notin> usedDegrees) allDegrees;
                    availableLength = lengthOr1 availableDegrees
                in if availableLength > 0
                   then js_or (elemAt availableDegrees (safeIdx mod availableLength))
                          (elemAt availableDegrees 0)
                   else rotatedDegree safeIdx)
             else degree0)
      in if \<not> truthy degree1 then ''B.Tech (CS)'' else the degree1)"

text \<open>
  \<^verbatim>\<open>allRoleData.map((roleItem, idx) => ...)\<close> with the set \<^verbatim>\<open>usedDegrees\<close> it updates
  on the way.
\<close>

fun pathwayEntries ::
  "string list \<Rightarrow> (string \<Rightarrow> confidence_result) \<Rightarrow> role_item list \<Rightarrow> nat \<Rightarrow> string set \<Rightarrow> pathway list" where
  "pathwayEntries degrees conf [] idx usedDegrees = []"
| "pathwayEntries degrees conf (roleItem # rest) idx usedDegrees =
     (let chosen = pickDegree degrees idx usedDegrees;
          c = conf (ri_riasecMix roleItem)
      in \<lparr>degree = chosen,
          riasecMix = orDefault (ri_riasecMix roleItem) [],
          careerRole = orDefault (ri_role roleItem) ''Full Stack Developer'',
          professionalPersona =
            orDefault (calculatePersona (ri_role roleItem)) ''The Technical Professional'',
          coreTasksFocus =
            orDefault (calculateFocus (ri_role roleItem))
              ''Developing software solutions through systematic analysis and implementation.'',
          confidence = orDefault (label c) ''Moderate Confidence'',
          confidenceLevel = orDefault (level c) ''MODERATE''\<rparr>
         # pathwayEntries degrees conf rest (idx + 1) (insert chosen usedDegrees))"

text \<open>
  \<^verbatim>\<open>calculateCareerPathways(top3Codes, scores)\<close>; it reads the six scores and
  \<^verbatim>\<open>sortedScores\<close> from the enclosing function. On numbers \<^verbatim>\<open>score || 0\<close> is the
  score, and no score is \<^verbatim>\<open>NaN\<close>.
\<close>

definition calculateCareerPathways :: "string list \<Rightarrow> scores \<Rightarrow> pathway list" where
  "calculateCareerPathways top3Codes sc =
     (let top3Scores = map e_score (take 3 (sortedScores sc))
      in pathwayEntries (degreeList top3Codes)
           (\<lambda>mix. calculateConfidence mix top3Codes top3Scores sc)
           (allRoleData top3Codes) 0 {})"

definition top3Codes :: "scores \<Rightarrow> string list" where
  "top3Codes sc = map e_code (take 3 (sortedScores sc))"

subsection \<open>The call to the narrative generator\<close>

text \<open>
  The generator is outside this program. One HTTP call either throws or answers; what
  the checks of the service can tell apart about an error or an answer is its constructor
  here: an error with a response (its status and the message of its body, empty when there
  is none), an error with a request only, any other error (its code and its message).
\<close>

datatype api_error =
    ResponseError nat string
  | RequestError
  | PlainError "string option" string

datatype response_data =
    NoCandidates
  | NoContentParts
  | SafetyBlocked
  | NoText
  | ResponseText string

datatype attempt_outcome = Failed api_error | Responded response_data

text \<open>
  The object \<^verbatim>\<open>JSON.parse\<close> returns: \<^verbatim>\<open>null\<close>, a value without a
  \<^verbatim>\<open>riasecProfile\<close> or without a \<^verbatim>\<open>dimensions\<close> array, or a report, which may carry
  a \<^verbatim>\<open>careerPathways\<close> of the generator's own. \<open>'n\<close> is the narrative content, which
  the service does not interpret.
\<close>

record 'n report =
  riasecProfile :: 'n
  dimensions :: "'n list"
  careerPathways :: "pathway list option"

datatype 'n json = JsonNull | JsonIncomplete | JsonReport "'n report"

type_synonym 'n generated = "'n report option \<times> string option"

definition startsWith :: "string \<Rightarrow> string \<Rightarrow> bool" where
  "startsWith s p = (take (length p) s = p)"

definition endsWith :: "string \<Rightarrow> string \<Rightarrow> bool" where
  "endsWith s p = (length p \<le> length s \<and> drop (length s - length p) s = p)"

fun str_includes :: "string \<Rightarrow> string \<Rightarrow> bool" where
  "str_includes [] p = (p = [])"
| "str_includes (x # xs) p = (startsWith (x # xs) p \<or> str_includes xs p)"

definition lowerChar :: "char \<Rightarrow> char" where
  "lowerChar c =
     (case map_of (zip ''ABCDEFGHIJKLMNOPQRSTUVWXYZ'' ''abcdefghijklmnopqrstuvwxyz'') c of
        Some l \<Rightarrow> l
      | None \<Rightarrow> c)"

definition toLowerCase :: "string \<Rightarrow> string" where
  "toLowerCase s = map lowerChar s"

text \<open>The text of the answer without its Markdown fence.\<close>

definition stripFences :: "string \<Rightarrow> string" where
  "stripFences responseText =
     (let t0 = trim responseText;
          t1 = (if startsWith t0 ''```json'' then drop 7 t0 else t0);
          t2 = (if startsWith t1 ''```'' then drop 3 t1 else t1);
          t3 = (if endsWith t2 ''```'' then take (length t2 - 3) t2 else t2)
      in trim t3)"

text \<open>
  The \<^verbatim>\<open>try\<close> block after the call has answered. \<open>Inr\<close> is a \<^verbatim>\<open>return\<close>,
  \<open>Inl\<close> an exception thrown inside the block. \<open>parseJSON\<close> is \<^verbatim>\<open>JSON.parse\<close>
  (\<open>None\<close>: it throws); \<open>postProcess\<close> is the removal of the unwanted phrases from the
  narrative, which throws on a narrative of the wrong shape.
\<close>

definition handleResponse ::
  "(string \<Rightarrow> 'n json option) \<Rightarrow> ('n report \<Rightarrow> string + 'n report) \<Rightarrow> scores \<Rightarrow> response_data
     \<Rightarrow> api_error + 'n generated" where
  "handleResponse parseJSON postProcess sc response =
     (case response of
        NoCandidates \<Rightarrow> Inr (None, Some ''Invalid response from AI service. Please try again.'')
      | NoContentParts \<Rightarrow>
          Inr (None, Some ''AI service returned empty content. Please try again.'')
      | SafetyBlocked \<Rightarrow>
          Inr (None, Some ''Content was blocked by safety filters. Please try again.'')
      | NoText \<Rightarrow> Inr (None, Some ''AI service returned invalid response. Please try again.'')
      | ResponseText responseText \<Rightarrow>
          if responseText = [] then
            Inr (None, Some ''AI service returned invalid response. Please try again.'')
          else if stripFences responseText = [] then
            Inr (None, Some ''AI service returned empty response. Please try again.'')
          else
            (case parseJSON (stripFences responseText) of
               None \<Rightarrow> Inr (None, Some ''Failed to parse AI response. Please try again.'')
             | Some JsonNull \<Rightarrow>
                 Inl (PlainError None ''Cannot read properties of null (reading 'riasecProfile')'')
             | Some JsonIncomplete \<Rightarrow>
                 Inr (None, Some ''Invalid report structure from AI service'')
             | Some (JsonReport parsed) \<Rightarrow>
                 (case postProcess parsed of
                    Inl message \<Rightarrow> Inl (PlainError None message)
                  | Inr cleaned \<Rightarrow>
                      Inr (Some (cleaned\<lparr>careerPathways :=
                                   Some (calculateCareerPathways (top3Codes sc) sc)\<rparr>),
                           None))))"

definition maxRetries :: nat where
  "maxRetries = 3"

fun digitsFuel :: "nat \<Rightarrow> nat \<Rightarrow> string" where
  "digitsFuel 0 n = []"
| "digitsFuel (Suc fuel) n =
     (if n < 10 then [char_of (48 + n)] else digitsFuel fuel (n div 10) @ [char_of (48 + n mod 10)])"

text \<open>The decimal digits of a status code, as the template string prints it.\<close>

definition showStatus :: "nat \<Rightarrow> string" where
  "showStatus n = digitsFuel (Suc n) n"

datatype 'r step = Continue | Return 'r

text \<open>The \<^verbatim>\<open>catch\<close> block of one attempt.\<close>

definition handleError :: "nat \<Rightarrow> api_error \<Rightarrow> 'n generated step" where
  "handleError attempt err =
     (case err of
        ResponseError status errorMessage \<Rightarrow>
          if status = 429 \<and> attempt < maxRetries then Continue
          else if status \<ge> 500 \<and> status < 600 \<and> attempt < maxRetries then Continue
          else if status = 401 \<or> status = 403 then
            Return (None, Some ''Gemini API authentication failed. Please check your API key.'')
          else if status = 429 then
            Return (None,
              Some ''Gemini API rate limit exceeded. Please try again in a few minutes.'')
          else if status \<ge> 500 then
            Return (None, Some ''Gemini API server error. Please try again later.'')
          else
            Return (None,
              Some (orDefault errorMessage
                     (''API error ('' @ showStatus status @ ''). Please try again.'')))
      | RequestError \<Rightarrow>
          if attempt < maxRetries then Continue
          else Return (None,
            Some ''Network error: Could not reach AI service. Please check your connection and try again.'')
      | PlainError code message \<Rightarrow>
          if code = Some ''ECONNABORTED'' \<or> str_includes message ''timeout'' then
            (if attempt < maxRetries then Continue
             else Return (None,
               Some ''Request timeout: AI service took too long to respond. Please try again.''))
          else if str_includes (toLowerCase message) ''api key''
                  \<or> str_includes (toLowerCase message) ''authentication'' then
            Return (None, Some ''Gemini API authentication failed. Please check your API key.'')
          else if str_includes (toLowerCase message) ''quota''
                  \<or> str_includes (toLowerCase message) ''rate limit'' then
            Return (None,
              Some ''Gemini API rate limit exceeded. Please try again in a few minutes.'')
          else
            Return (None,
              Some (''RIASEC report generation failed: '' @ message @ ''. Please try again.'')))"

text \<open>
  The retry loop: \<open>outcomes attempt\<close> is what the call of that attempt does. The delay
  before a retry has no effect on the value and is left out.
\<close>

function attemptLoop ::
  "(string \<Rightarrow> 'n json option) \<Rightarrow> ('n report \<Rightarrow> string + 'n report) \<Rightarrow> scores
     \<Rightarrow> (nat \<Rightarrow> attempt_outcome) \<Rightarrow> nat \<Rightarrow> 'n generated" where
  "attemptLoop parseJSON postProcess sc outcomes attempt =
     (if attempt \<le> maxRetries then
        (case (case outcomes attempt of
                 Failed err \<Rightarrow> Inl err
               | Responded response \<Rightarrow> handleResponse parseJSON postProcess sc response) of
           Inr result \<Rightarrow> result
         | Inl err \<Rightarrow>
             (case handleError attempt err of
                Continue \<Rightarrow> attemptLoop parseJSON postProcess sc outcomes (attempt + 1)
              | Return result \<Rightarrow> result))
      else (None, Some ''Gemini API rate limit exceeded. Please try again in a few minutes.''))"
  by pat_completeness auto
termination
  by (relation "measure (\<lambda>(parseJSON, postProcess, sc, outcomes, attempt). Suc maxRetries - attempt)")
    auto

text \<open>
  \<^verbatim>\<open>generateRIASECReport\<close>. The six scores are numbers, so the check for
  \<^verbatim>\<open>undefined\<close> passes. The write to the report cache after a success does not change
  the value returned (its failure is caught) and is left out.
\<close>

definition generateRIASECReport ::
  "string option \<Rightarrow> (string \<Rightarrow> 'n json option) \<Rightarrow> ('n report \<Rightarrow> string + 'n report) \<Rightarrow> scores
     \<Rightarrow> (nat \<Rightarrow> attempt_outcome) \<Rightarrow> 'n generated" where
  "generateRIASECReport apiKey parseJSON postProcess sc outcomes =
     (if \<not> truthy apiKey \<or> trim (the apiKey) = [] then
        (None, Some ''GEMINI_API_KEY environment variable is not set'')
      else attemptLoop parseJSON postProcess sc outcomes 0)"

section \<open>Notions the properties of the ScoreAggregator are stated with\<close>

text \<open>
  The rows the scoring loop runs over: the answers of the attempt as the self-healing
  pass leaves them in memory. The store the pass leaves behind is \<open>healed\<close>.
\<close>

definition scoringRows :: "(nat \<Rightarrow> bool) \<Rightarrow> db \<Rightarrow> nat \<Rightarrow> loaded list" where
  "scoringRows writeOk d testAttemptId = snd (selfHeal writeOk d (loadedAnswers d testAttemptId))"

definition healed :: "(nat \<Rightarrow> bool) \<Rightarrow> db \<Rightarrow> nat \<Rightarrow> db" where
  "healed writeOk d testAttemptId = fst (selfHeal writeOk d (loadedAnswers d testAttemptId))"

text \<open>
  A row is scored under the code \<open>c\<close> when the scoring loop reads the valid category
  \<open>c\<close> from its question; the value it contributes is \<open>valueOf\<close> (the 0 for an
  exception is never used: an exception ends the computation).
\<close>

definition scoredUnder :: "string \<Rightarrow> loaded \<Rightarrow> bool" where
  "scoredUnder c r =
     (validCategory (currentCategory (la_question r)) \<and> currentCategory (la_question r) = Some c)"






text \<open>
  The value extraction as the specification words it: the letter of the trimmed,
  upper-cased text, else 3 for the five-point kind; the letter, else the parsed number,
  else 0 for the free-choice kind; 0 for every other kind.
\<close>

definition extractValue_spec :: "(string \<Rightarrow> real option) \<Rightarrow> string \<Rightarrow> string \<Rightarrow> real" where
  "extractValue_spec parseFloat kind answerText =
     (let token = toUpperCase (trim answerText);
          letter = (if token = ''A'' then Some 1 else if token = ''B'' then Some 2
                    else if token = ''C'' then Some 3 else if token = ''D'' then Some 4
                    else if token = ''E'' then Some 5 else None)
      in if kind = ''LIKERT_SCALE'' then (case letter of Some v \<Rightarrow> v | None \<Rightarrow> 3)
         else if kind = ''MULTIPLE_CHOICE'' then
           (case letter of
              Some v \<Rightarrow> v
            | None \<Rightarrow> (case parseFloat answerText of Some x \<Rightarrow> x | None \<Rightarrow> 0))
         else 0)"

text \<open>
  The code the section of question \<open>i\<close> implies, and the questions the first loop
  collects for an update.
\<close>

definition impliedCode :: "db \<Rightarrow> nat \<Rightarrow> string option" where
  "impliedCode d i =
     (case questions d i of
        None \<Rightarrow> None
      | Some q \<Rightarrow>
          (case find (\<lambda>s. s_id s = q_section_id q) (sections d) of
             None \<Rightarrow> None
           | Some s \<Rightarrow> orderToRIASEC (s_order_index s)))"

definition toUpdate :: "db \<Rightarrow> nat \<Rightarrow> nat set" where
  "toUpdate d tid = fst ` set (questionIdsToUpdate (loadedAnswers d tid))"

subsection \<open>A small store to run the service on\<close>

text \<open>
  A catalog that holds section 5 only, with two answered five-point questions: question 7
  has no category, question 8 carries the category \<^verbatim>\<open>" i "\<close>. \<open>healedDb\<close> is the same
  store with the category \<^verbatim>\<open>R\<close> on question 7.
\<close>

definition exampleDb :: db where
  "exampleDb =
     \<lparr>sections = [\<lparr>s_id = 11, s_order_index = 5, s_name = ''Section 5: Realistic''\<rparr>],
      questions =
        [7 \<mapsto> \<lparr>q_section_id = 11, q_category = None, q_question_type = ''LIKERT_SCALE'',
                q_order_index = 1\<rparr>,
         8 \<mapsto> \<lparr>q_section_id = 11, q_category = Some '' i '', q_question_type = ''LIKERT_SCALE'',
                q_order_index = 2\<rparr>],
      answers =
        [\<lparr>a_test_attempt_id = 3, a_question_id = 7, a_answer_text = Some ''D''\<rparr>,
         \<lparr>a_test_attempt_id = 3, a_question_id = 8, a_answer_text = Some ''b''\<rparr>]\<rparr>"

definition healedDb :: db where
  "healedDb =
     \<lparr>sections = [\<lparr>s_id = 11, s_order_index = 5, s_name = ''Section 5: Realistic''\<rparr>],
      questions =
        [7 \<mapsto> \<lparr>q_section_id = 11, q_category = Some ''R'', q_question_type = ''LIKERT_SCALE'',
                q_order_index = 1\<rparr>,
         8 \<mapsto> \<lparr>q_section_id = 11, q_category = Some '' i '', q_question_type = ''LIKERT_SCALE'',
                q_order_index = 2\<rparr>],
      answers =
        [\<lparr>a_test_attempt_id = 3, a_question_id = 7, a_answer_text = Some ''D''\<rparr>,
         \<lparr>a_test_attempt_id = 3, a_question_id = 8, a_answer_text = Some ''b''\<rparr>]\<rparr>"

definition emptyDb :: db where
  "emptyDb = \<lparr>sections = [], questions = Map.empty, answers = []\<rparr>"

text \<open>
  A \<open>parseFloat\<close> that reads no number, a store that accepts every write, and one that
  rejects every write.
\<close>

definition noNumber :: "string \<Rightarrow> real option" where
  "noNumber s = None"

definition everyWrite :: "nat \<Rightarrow> bool" where
  "everyWrite i = True"

definition noWrite :: "nat \<Rightarrow> bool" where
  "noWrite i = False"

section \<open>Notions the properties of the ReportComposer are stated with\<close>

text \<open>
  The ranking as the specification words it: \<open>a\<close> comes before \<open>b\<close> when its score is
  higher, or the scores are equal and its code is earlier in the alphabet (the order of
  strings by character code).
\<close>

definition rankedBefore :: "score_entry \<Rightarrow> score_entry \<Rightarrow> bool" where
  "rankedBefore a b =
     (e_score a > e_score b \<or> (e_score a = e_score b \<and> e_code a < e_code b))"

text \<open>What the comparator of the code says: \<open>a\<close> need not come after \<open>b\<close>.\<close>

definition notAfter :: "score_entry \<Rightarrow> score_entry \<Rightarrow> bool" where
  "notAfter a b = (compareFn a b \<le> 0)"


subsection \<open>Score vectors to run the composer on\<close>

text \<open>Five equal scores, and the order their codes must come in.\<close>

definition tieScores :: scores where
  "tieScores = \<lparr>R = 40, I = 40, A = 40, S = 10, E = 40, C = 40\<rparr>"

definition tieRanking :: "score_entry list" where
  "tieRanking =
     [\<lparr>e_code = ''A'', e_score = 40, e_label = ''Artistic'', e_title = ''Artistic (Creators)''\<rparr>,
      \<lparr>e_code = ''C'', e_score = 40, e_label = ''Conventional'',
        e_title = ''Conventional (Organizers)''\<rparr>,
      \<lparr>e_code = ''E'', e_score = 40, e_label = ''Enterprising'',
        e_title = ''Enterprising (Persuaders)''\<rparr>,
      \<lparr>e_code = ''I'', e_score = 40, e_label = ''Investigative'',
        e_title = ''Investigative (Thinkers)''\<rparr>,
      \<lparr>e_code = ''R'', e_score = 40, e_label = ''Realistic'', e_title = ''Realistic (Doers)''\<rparr>,
      \<lparr>e_code = ''S'', e_score = 10, e_label = ''Social'', e_title = ''Social (Helpers)''\<rparr>]"


definition exampleScores :: scores where
  "exampleScores = \<lparr>R = 85, I = 70, A = 10, S = 5, E = 5, C = 5\<rparr>"

subsection \<open>The narrative generator\<close>

text \<open>
  An attempt gives a usable narrative when the call answers with a text that, without its
  fence, is not empty, parses to a report object, and passes the post-processing. Any other
  outcome is a failure of the generator: an error, a timeout, or malformed output.
\<close>

definition usable ::
  "(string \<Rightarrow> 'n json option) \<Rightarrow> ('n report \<Rightarrow> string + 'n report) \<Rightarrow> attempt_outcome \<Rightarrow> bool" where
  "usable parseJSON postProcess outcome =
     (case outcome of
        Failed err \<Rightarrow> False
      | Responded response \<Rightarrow>
          (case response of
             ResponseText responseText \<Rightarrow>
               responseText \<noteq> [] \<and> stripFences responseText \<noteq> []
               \<and> (case parseJSON (stripFences responseText) of
                    Some (JsonReport parsed) \<Rightarrow>
                      (case postProcess parsed of Inl message \<Rightarrow> False | Inr cleaned \<Rightarrow> True)
                  | _ \<Rightarrow> False)
           | _ \<Rightarrow> False))"

text \<open>
  Two generators to run the composer with: one that never answers, and one that is
  rate-limited once and then answers with a fenced \<^verbatim>\<open>{}\<close>, which \<open>oneReport\<close> parses to
  a report carrying an empty pathway list of the generator's own.
\<close>

definition outage :: "nat \<Rightarrow> attempt_outcome" where
  "outage attempt = Failed RequestError"

definition noJson :: "string \<Rightarrow> unit json option" where
  "noJson s = None"

definition keepNarrative :: "unit report \<Rightarrow> string + unit report" where
  "keepNarrative parsed = Inr parsed"

definition oneReport :: "string \<Rightarrow> unit json option" where
  "oneReport s =
     (if s = ''{}''
      then Some (JsonReport \<lparr>riasecProfile = (), dimensions = [], careerPathways = Some []\<rparr>)
      else None)"

definition retryThenAnswer :: "nat \<Rightarrow> attempt_outcome" where
  "retryThenAnswer attempt =
     (if attempt = 0 then Failed (ResponseError 429 []) else Responded (ResponseText ''```json{}```''))"

definition composedReport :: "unit report" where
  "composedReport =
     \<lparr>riasecProfile = (), dimensions = [],
      careerPathways = Some (calculateCareerPathways (top3Codes exampleScores) exampleScores)\<rparr>"

section \<open>Properties of the ScoreAggregator\<close>

subsection \<open>The scoring loop and the normalisation\<close>










subsection \<open>The service on the example store\<close>

lemma example_loaded:
  "loadedAnswers exampleDb 3 =
     [\<lparr>la_answer_text = Some ''D'', la_question_id = 7,
        la_question = \<lparr>q_section_id = 11, q_category = None, q_question_type = ''LIKERT_SCALE'',
                q_order_index = 1\<rparr>,
        la_section = \<lparr>s_id = 11, s_order_index = 5, s_name = ''Section 5: Realistic''\<rparr>\<rparr>,
      \<lparr>la_answer_text = Some ''b'', la_question_id = 8,
        la_question = \<lparr>q_section_id = 11, q_category = Some '' i '', q_question_type = ''LIKERT_SCALE'',
                q_order_index = 2\<rparr>,
        la_section = \<lparr>s_id = 11, s_order_index = 5, s_name = ''Section 5: Realistic''\<rparr>\<rparr>]"
  by (simp add: loadedAnswers_def findAnswers_def findRiasecSections_def exampleDb_def
      List.map_filter_def loadAnswer_def)

lemmas eval_scoring =
  selfHeal_def questionIdsToUpdate_def List.map_filter_def needsCategory_def
  orderToRIASEC_def validCategory_def truthy_def riasecCodes_def
  currentCategory_def trim_def toUpperCase_def upperChar_def isWhitespace_def
  Question_update_def reload_def

lemma example_heal:
  "selfHeal everyWrite exampleDb (loadedAnswers exampleDb 3) =
     (healedDb, loadedAnswers healedDb 3)"
  unfolding example_loaded
  apply (simp add: eval_scoring everyWrite_def)
  apply (simp add: exampleDb_def healedDb_def
      loadedAnswers_def findAnswers_def findRiasecSections_def
      List.map_filter_def loadAnswer_def fun_upd_twist)
  done

lemma try_unfold:
  "calculateRIASECScores_try pf ok d tid =
     (if findRiasecSections d = [] then
        (Inr (zeroResult (Some ''RIASEC sections (5-10) not found'')), d)
      else if loadedAnswers d tid = [] then
        (Inr (zeroResult (Some ''No answers found for RIASEC section questions'')), d)
      else (case accumulate pf (scoringRows ok d tid) initialScores of
              Inl e \<Rightarrow> (Inl e, fst (selfHeal ok d (loadedAnswers d tid)))
            | Inr acc \<Rightarrow> (Inr (finalize acc), fst (selfHeal ok d (loadedAnswers d tid)))))"
  by (simp add: calculateRIASECScores_try_def Let_def loadedAnswers_def scoringRows_def
      split: prod.splits sum.splits)

lemma healed_loaded:
  "loadedAnswers healedDb 3 =
     [\<lparr>la_answer_text = Some ''D'', la_question_id = 7,
        la_question = \<lparr>q_section_id = 11, q_category = Some ''R'', q_question_type = ''LIKERT_SCALE'',
                q_order_index = 1\<rparr>,
        la_section = \<lparr>s_id = 11, s_order_index = 5, s_name = ''Section 5: Realistic''\<rparr>\<rparr>,
      \<lparr>la_answer_text = Some ''b'', la_question_id = 8,
        la_question = \<lparr>q_section_id = 11, q_category = Some '' i '', q_question_type = ''LIKERT_SCALE'',
                q_order_index = 2\<rparr>,
        la_section = \<lparr>s_id = 11, s_order_index = 5, s_name = ''Section 5: Realistic''\<rparr>\<rparr>]"
  by (simp add: loadedAnswers_def findAnswers_def findRiasecSections_def healedDb_def
      List.map_filter_def loadAnswer_def)

lemma example_accumulate:
  "accumulate noNumber (loadedAnswers healedDb 3) initialScores =
     Inr [''R'' \<mapsto> (4, 1), ''I'' \<mapsto> (2, 1), ''A'' \<mapsto> (0, 0),
          ''S'' \<mapsto> (0, 0), ''E'' \<mapsto> (0, 0), ''C'' \<mapsto> (0, 0)]"
  unfolding healed_loaded
  by (simp add: Let_def validCategory_def truthy_def riasecCodes_def
      currentCategory_def trim_def toUpperCase_def upperChar_def isWhitespace_def
      answerValue_def likertMap_def initialScores_def fun_upd_twist)

lemma example_finalize:
  "finalize [''R'' \<mapsto> (4, 1), ''I'' \<mapsto> (2, 1), ''A'' \<mapsto> (0, 0),
          ''S'' \<mapsto> (0, 0), ''E'' \<mapsto> (0, 0), ''C'' \<mapsto> (0, 0)] =
     \<lparr>R = 75, I = 25, A = 0, S = 0, E = 0, C = 0, error = None\<rparr>"
  by (simp add: finalize_def dimensionScore_def percentage_def Math_round_def totalCount_def
      riasecCodes_def)

lemma example_try:
  "calculateRIASECScores_try noNumber everyWrite exampleDb 3 =
     (Inr \<lparr>R = 75, I = 25, A = 0, S = 0, E = 0, C = 0, error = None\<rparr>, healedDb)"
proof -
  have s: "findRiasecSections exampleDb \<noteq> []"
    by (simp add: findRiasecSections_def exampleDb_def)
  have l: "loadedAnswers exampleDb 3 \<noteq> []"
    by (simp add: example_loaded)
  show ?thesis
    unfolding try_unfold scoringRows_def example_heal snd_conv fst_conv example_accumulate
      sum.case example_finalize
    using s l by simp
qed

subsection \<open>What the self-healing pass does to the store and to the rows\<close>

lemma selfHeal_eq:
  "selfHeal ok d rows =
     (let p = applyUpdates ok (questionIdsToUpdate rows) d 0
      in if snd p > 0 then (fst p, map (reload (fst p)) rows) else (fst p, rows))"
  by (simp add: selfHeal_def Let_def split: prod.splits)

lemma set_map_filter: "set (List.map_filter f xs) = {y. \<exists>x\<in>set xs. f x = Some y}"
  by (induction xs) (auto simp: List.map_filter_def)

lemma map_filter_map_option:
  "List.map_filter (\<lambda>x. map_option g (f x)) xs = map g (List.map_filter f xs)"
  by (induction xs) (auto simp: List.map_filter_def)

lemma findAnswers_Nil: "findAnswers d tid [] = []"
  by (induction "answers d") (auto simp: findAnswers_def List.map_filter_def loadAnswer_def
      filter_empty_conv split: option.splits)

lemma loadAnswer_Some:
  assumes "loadAnswer d tid sids a = Some r"
  shows "questions d (la_question_id r) = Some (la_question r)"
    and "find (\<lambda>s. s_id s = q_section_id (la_question r)) (sections d) = Some (la_section r)"
  using assms by (auto simp: loadAnswer_def split: if_splits option.splits)

lemma loaded_row:
  assumes "r \<in> set (loadedAnswers d tid)"
  shows "questions d (la_question_id r) = Some (la_question r)"
    and "find (\<lambda>s. s_id s = q_section_id (la_question r)) (sections d) = Some (la_section r)"
  using assms
  by (auto simp: loadedAnswers_def findAnswers_def set_map_filter dest: loadAnswer_Some)

lemma loaded_implied:
  "r \<in> set (loadedAnswers d tid) \<Longrightarrow>
   orderToRIASEC (s_order_index (la_section r)) = impliedCode d (la_question_id r)"
  by (simp add: impliedCode_def loaded_row)

lemma orderToRIASEC_code: "orderToRIASEC n = Some c \<Longrightarrow> c \<in> set riasecCodes"
  by (auto simp: orderToRIASEC_def riasecCodes_def split: if_splits)

lemma currentCategory_code:
  "c \<in> set riasecCodes \<Longrightarrow> currentCategory (q\<lparr>q_category := Some c\<rparr>) = Some c"
  by (auto simp: riasecCodes_def currentCategory_def truthy_def trim_def toUpperCase_def
      upperChar_def isWhitespace_def)

lemma validCategory_code: "c \<in> set riasecCodes \<Longrightarrow> validCategory (Some c)"
  by (auto simp: validCategory_def truthy_def riasecCodes_def)

lemma applyUpdates_char:
  "\<forall>(i, c)\<in>set us. Cf i = c \<Longrightarrow>
   applyUpdates ok us d n =
     (d\<lparr>questions := (\<lambda>j. if ok j \<and> j \<in> fst ` set us
                            then map_option (\<lambda>q. q\<lparr>q_category := Some (Cf j)\<rparr>) (questions d j)
                            else questions d j)\<rparr>,
      n + length (filter (\<lambda>(i, c). ok i) us))"
proof (induction us arbitrary: d n)
  case Nil
  then show ?case by simp
next
  case (Cons u us)
  obtain i c where u: "u = (i, c)" by (cases u)
  from Cons.prems u have c: "Cf i = c" and rest: "\<forall>(i, c)\<in>set us. Cf i = c" by auto
  show ?case
  proof (cases "ok i")
    case False
    have "(\<lambda>j. if ok j \<and> j \<in> fst ` set (u # us)
                then map_option (\<lambda>q. q\<lparr>q_category := Some (Cf j)\<rparr>) (questions d j)
                else questions d j) =
          (\<lambda>j. if ok j \<and> j \<in> fst ` set us
                then map_option (\<lambda>q. q\<lparr>q_category := Some (Cf j)\<rparr>) (questions d j)
                else questions d j)"
      using False u by (auto simp: fun_eq_iff)
    then show ?thesis
      using False u Cons.IH[OF rest, of d n] by simp
  next
    case True
    let ?d1 = "Question_update d i c"
    have "(\<lambda>j. if ok j \<and> j \<in> fst ` set us
                then map_option (\<lambda>q. q\<lparr>q_category := Some (Cf j)\<rparr>) (questions ?d1 j)
                else questions ?d1 j) =
          (\<lambda>j. if ok j \<and> j \<in> fst ` set (u # us)
                then map_option (\<lambda>q. q\<lparr>q_category := Some (Cf j)\<rparr>) (questions d j)
                else questions d j)"
      using True u c by (auto simp: fun_eq_iff Question_update_def split: option.splits)
    moreover have "?d1\<lparr>questions := f\<rparr> = d\<lparr>questions := f\<rparr>" for f
      by (simp add: Question_update_def split: option.splits)
    ultimately show ?thesis
      using True u Cons.IH[OF rest, of ?d1 "n + 1"] by simp
  qed
qed

lemma applyUpdates_none:
  "\<forall>(i, c)\<in>set us. \<not> ok i \<Longrightarrow> applyUpdates ok us d n = (d, n)"
  by (induction us arbitrary: d n) auto

lemma update_implied:
  assumes "(i, c) \<in> set (questionIdsToUpdate (loadedAnswers d tid))"
  shows "impliedCode d i = Some c"
    and "\<exists>r\<in>set (loadedAnswers d tid). la_question_id r = i
           \<and> \<not> validCategory (currentCategory (la_question r))"
proof -
  from assms obtain r where r: "r \<in> set (loadedAnswers d tid)" "needsCategory r = Some (i, c)"
    by (auto simp: questionIdsToUpdate_def set_map_filter)
  from r(2) have "la_question_id r = i" "orderToRIASEC (s_order_index (la_section r)) = Some c"
    "\<not> validCategory (currentCategory (la_question r))"
    by (auto simp: needsCategory_def split: option.splits if_splits)
  with r(1) show "impliedCode d i = Some c"
    and "\<exists>r\<in>set (loadedAnswers d tid). la_question_id r = i
           \<and> \<not> validCategory (currentCategory (la_question r))"
    by (auto simp: loaded_implied)
qed

lemma toUpdate_iff:
  "i \<in> toUpdate d tid \<longleftrightarrow>
     (\<exists>r\<in>set (loadedAnswers d tid). la_question_id r = i
        \<and> \<not> validCategory (currentCategory (la_question r))
        \<and> orderToRIASEC (s_order_index (la_section r)) \<noteq> None)"
  by (force simp: toUpdate_def questionIdsToUpdate_def set_map_filter needsCategory_def
      image_iff split: option.splits if_splits)

lemma healed_char:
  "healed ok d tid =
     d\<lparr>questions := (\<lambda>j. if ok j \<and> j \<in> toUpdate d tid
                          then map_option (\<lambda>q. q\<lparr>q_category := impliedCode d j\<rparr>) (questions d j)
                          else questions d j)\<rparr>"
proof -
  let ?us = "questionIdsToUpdate (loadedAnswers d tid)"
  have cf: "\<forall>(i, c)\<in>set ?us. the (impliedCode d i) = c"
    by (auto dest: update_implied(1))
  have "fst (applyUpdates ok ?us d 0) =
          d\<lparr>questions := (\<lambda>j. if ok j \<and> j \<in> fst ` set ?us
                          then map_option (\<lambda>q. q\<lparr>q_category := Some (the (impliedCode d j))\<rparr>) (questions d j)
                          else questions d j)\<rparr>"
    by (simp add: applyUpdates_char[OF cf])
  moreover have "(\<lambda>j. if ok j \<and> j \<in> fst ` set ?us
                          then map_option (\<lambda>q. q\<lparr>q_category := Some (the (impliedCode d j))\<rparr>) (questions d j)
                          else questions d j) =
        (\<lambda>j. if ok j \<and> j \<in> toUpdate d tid
                          then map_option (\<lambda>q. q\<lparr>q_category := impliedCode d j\<rparr>) (questions d j)
                          else questions d j)"
    by (auto simp: fun_eq_iff toUpdate_def dest!: update_implied(1))
  moreover have "healed ok d tid = fst (applyUpdates ok ?us d 0)"
    by (simp add: healed_def selfHeal_eq Let_def)
  ultimately show ?thesis by simp
qed

lemma healed_frame:
  "sections (healed ok d tid) = sections d" "answers (healed ok d tid) = answers d"
  by (simp_all add: healed_char)

lemma healed_unchanged:
  "\<not> (\<exists>i\<in>toUpdate d tid. ok i) \<Longrightarrow> healed ok d tid = d"
  by (subst healed_char) (auto simp: fun_eq_iff intro!: db.equality)

lemma reload_loaded: "r \<in> set (loadedAnswers d tid) \<Longrightarrow> reload d r = r"
  by (simp add: reload_def loaded_row)

lemma scoringRows_reload:
  "scoringRows ok d tid = map (reload (healed ok d tid)) (loadedAnswers d tid)"
proof -
  let ?us = "questionIdsToUpdate (loadedAnswers d tid)"
  have cf: "\<forall>(i, c)\<in>set ?us. the (impliedCode d i) = c"
    by (auto dest: update_implied(1))
  show ?thesis
  proof (cases "snd (applyUpdates ok ?us d 0) > 0")
    case True
    then show ?thesis
      by (simp add: scoringRows_def healed_def selfHeal_eq Let_def)
  next
    case False
    then have "filter (\<lambda>(i, c). ok i) ?us = []"
      by (simp add: applyUpdates_char[OF cf])
    then have "\<not> (\<exists>i\<in>toUpdate d tid. ok i)"
      by (auto simp: toUpdate_def filter_empty_conv)
    then have "healed ok d tid = d" by (rule healed_unchanged)
    moreover have "scoringRows ok d tid = loadedAnswers d tid"
      using False by (simp add: scoringRows_def selfHeal_eq Let_def)
    ultimately show ?thesis
      by (simp add: reload_loaded map_idI)
  qed
qed

lemma loadedAnswers_healed:
  "loadedAnswers (healed ok d tid) tid = map (reload (healed ok d tid)) (loadedAnswers d tid)"
proof -
  let ?d' = "healed ok d tid"
  have sec: "findRiasecSections ?d' = findRiasecSections d"
    by (simp add: findRiasecSections_def healed_frame)
  have "loadAnswer ?d' tid sids a = map_option (reload ?d') (loadAnswer d tid sids a)" for sids a
    by (auto simp: loadAnswer_def healed_frame reload_def healed_char split: option.splits)
  then have "loadAnswer ?d' tid sids = (\<lambda>a. map_option (reload ?d') (loadAnswer d tid sids a))"
    for sids by (rule ext)
  then show ?thesis
    by (simp add: loadedAnswers_def findAnswers_def sec healed_frame map_filter_map_option)
qed

subsection \<open>The service in terms of the healed store; the second run\<close>

lemma healed_fst: "fst (selfHeal ok d (loadedAnswers d tid)) = healed ok d tid"
  by (simp add: healed_def)

lemma no_sections_no_rows: "findRiasecSections d = [] \<Longrightarrow> loadedAnswers d tid = []"
  by (simp add: loadedAnswers_def findAnswers_Nil)

lemma no_rows_unchanged: "loadedAnswers d tid = [] \<Longrightarrow> healed ok d tid = d"
  by (rule healed_unchanged) (simp add: toUpdate_def questionIdsToUpdate_def List.map_filter_def)

lemma calc_unfold:
  "calculateRIASECScores pf ok d tid =
     (if findRiasecSections d = [] then
        (zeroResult (Some ''RIASEC sections (5-10) not found''), healed ok d tid)
      else if loadedAnswers d tid = [] then
        (zeroResult (Some ''No answers found for RIASEC section questions''), healed ok d tid)
      else (case accumulate pf (scoringRows ok d tid) initialScores of
              Inl e \<Rightarrow>
                (zeroResult (Some (''Failed to calculate RIASEC scores: '' @ e)), healed ok d tid)
            | Inr acc \<Rightarrow> (finalize acc, healed ok d tid)))"
  by (auto simp: calculateRIASECScores_def try_unfold healed_fst no_rows_unchanged
      no_sections_no_rows split: sum.splits)

lemma calc_store: "snd (calculateRIASECScores pf ok d tid) = healed ok d tid"
  by (simp add: calc_unfold split: sum.splits)

lemma reload_fields:
  "la_question_id (reload d r) = la_question_id r" "la_section (reload d r) = la_section r"
  "la_answer_text (reload d r) = la_answer_text r"
  by (simp_all add: reload_def split: option.splits)

lemma healed_question:
  assumes "r \<in> set (loadedAnswers d tid)"
  shows "questions (healed ok d tid) (la_question_id r) =
           (if ok (la_question_id r) \<and> la_question_id r \<in> toUpdate d tid
            then Some ((la_question r)\<lparr>q_category := orderToRIASEC (s_order_index (la_section r))\<rparr>)
            else Some (la_question r))"
  using assms by (simp add: healed_char loaded_row loaded_implied)

lemma reload_finds_row:
  "r \<in> set (loadedAnswers d tid) \<Longrightarrow> questions (healed ok d tid) (la_question_id r) \<noteq> None"
  by (simp add: healed_question)



lemma healed_no_pending:
  assumes "(i, c) \<in> set (questionIdsToUpdate (loadedAnswers (healed ok d tid) tid))"
  shows "\<not> ok i"
proof
  assume ok: "ok i"
  let ?d' = "healed ok d tid"
  from assms obtain r' where r': "r' \<in> set (loadedAnswers ?d' tid)" "needsCategory r' = Some (i, c)"
    by (auto simp: questionIdsToUpdate_def set_map_filter)
  from r'(1) obtain r where r: "r \<in> set (loadedAnswers d tid)" "r' = reload ?d' r"
    by (auto simp: loadedAnswers_healed)
  from r'(2) have i: "la_question_id r' = i"
    and c: "orderToRIASEC (s_order_index (la_section r')) = Some c"
    and inv: "\<not> validCategory (currentCategory (la_question r'))"
    by (auto simp: needsCategory_def split: option.splits if_splits)
  from i c r(2) have i2: "la_question_id r = i"
    and c2: "orderToRIASEC (s_order_index (la_section r)) = Some c"
    by (simp_all add: reload_fields)
  show False
  proof (cases "i \<in> toUpdate d tid")
    case True
    with ok i2 c2 healed_question[OF r(1), of ok]
    have "la_question r' = (la_question r)\<lparr>q_category := Some c\<rparr>"
      by (simp add: r(2) reload_def)
    with inv orderToRIASEC_code[OF c2] show False
      by (simp add: currentCategory_code validCategory_code)
  next
    case False
    with i2 healed_question[OF r(1), of ok]
    have "la_question r' = la_question r"
      by (simp add: r(2) reload_def)
    with inv c2 r(1) i2 have "i \<in> toUpdate d tid"
      by (auto simp: toUpdate_iff)
    with False show False by simp
  qed
qed

lemma healed_twice: "healed ok (healed ok d tid) tid = healed ok d tid"
  by (rule healed_unchanged) (auto simp: toUpdate_def dest: healed_no_pending)

lemma scoringRows_twice: "scoringRows ok (healed ok d tid) tid = scoringRows ok d tid"
proof -
  have "scoringRows ok (healed ok d tid) tid =
          map (reload (healed ok d tid)) (loadedAnswers (healed ok d tid) tid)"
    by (simp add: scoringRows_reload[of ok "healed ok d tid"] healed_twice)
  also have "\<dots> = loadedAnswers (healed ok d tid) tid"
    by (simp add: reload_loaded map_idI)
  finally show ?thesis
    by (simp add: loadedAnswers_healed scoringRows_reload)
qed

lemma calc_twice:
  "calculateRIASECScores pf ok (healed ok d tid) tid =
     (fst (calculateRIASECScores pf ok d tid), healed ok d tid)"
proof -
  have sec: "findRiasecSections (healed ok d tid) = findRiasecSections d"
    by (simp add: findRiasecSections_def healed_frame)
  have rows: "loadedAnswers (healed ok d tid) tid = [] \<longleftrightarrow> loadedAnswers d tid = []"
    by (simp add: loadedAnswers_healed)
  show ?thesis
    by (simp add: calc_unfold[of pf ok "healed ok d tid"] calc_unfold[of pf ok d]
        sec rows healed_twice scoringRows_twice split: sum.splits)
qed





subsection \<open>The claims about the ScoreAggregator\<close>

lemma example_calc:
  "calculateRIASECScores noNumber everyWrite exampleDb 3 =
     (\<lparr>R = 75, I = 25, A = 0, S = 0, E = 0, C = 0, error = None\<rparr>, healedDb)"
  unfolding calculateRIASECScores_def example_try by simp



text \<open>
  Claim C4, counterexample: the catalog of the example store holds section 5 only, so
  the six sections are not all present, and yet the service returns the scores 75 and 25
  with no error.
\<close>

theorem partial_sections_counterexample:
  "map s_order_index (sections exampleDb) = [5]
   \<and> calculateRIASECScores noNumber everyWrite exampleDb 3 =
       (\<lparr>R = 75, I = 25, A = 0, S = 0, E = 0, C = 0, error = None\<rparr>, healedDb)"
  using example_calc by (simp add: exampleDb_def)

lemma findRiasecSections_Nil:
  "findRiasecSections d = [] \<longleftrightarrow>
     \<not> (\<exists>s\<in>set (sections d). 5 \<le> s_order_index s \<and> s_order_index s \<le> 10)"
proof -
  have "(n \<in> set [5, 6, 7, 8, 9, 10]) = (5 \<le> n \<and> n \<le> 10)" for n :: int
    by auto
  moreover have "sort_key f xs = [] \<longleftrightarrow> xs = []" for f :: "section_row \<Rightarrow> int" and xs
    by (metis length_0_conv length_sort)
  ultimately show ?thesis
    unfolding findRiasecSections_def
    by (simp add: filter_empty_conv del: set_simps)
qed

text \<open>
  Claim C4, amended. If none of the sections 5..10 is in the catalog, or no answer of the
  attempt lies in the sections found, or the computation throws, the service returns the
  six scores 0 with an error string.
\<close>

theorem no_data_is_an_error_value:
  assumes "\<not> (\<exists>s\<in>set (sections d). 5 \<le> s_order_index s \<and> s_order_index s \<le> 10)
           \<or> loadedAnswers d testAttemptId = []
           \<or> (\<exists>message. fst (calculateRIASECScores_try parseFloat writeOk d testAttemptId) = Inl message)"
  shows "\<exists>e. fst (calculateRIASECScores parseFloat writeOk d testAttemptId) = zeroResult (Some e)"
  using assms
  by (auto simp: calc_unfold findRiasecSections_Nil no_sections_no_rows try_unfold
      split: sum.splits if_splits)

text \<open>Claim C4, witness: the empty store.\<close>

theorem no_data_is_an_error_value_witness:
  "\<exists>e. fst (calculateRIASECScores noNumber everyWrite emptyDb 3) = zeroResult (Some e)"
proof -
  have "\<not> (\<exists>s\<in>set (sections emptyDb). 5 \<le> s_order_index s \<and> s_order_index s \<le> 10)"
    by (simp add: emptyDb_def)
  then show ?thesis
    using no_data_is_an_error_value[of emptyDb 3 noNumber everyWrite] by blast
qed

lemma rejected_heal:
  "selfHeal noWrite d rows = (d, rows)"
  by (simp add: selfHeal_eq Let_def applyUpdates_none noWrite_def)

lemma rejected_accumulate:
  "accumulate noNumber (loadedAnswers exampleDb 3) initialScores =
     Inr [''R'' \<mapsto> (0, 0), ''I'' \<mapsto> (2, 1), ''A'' \<mapsto> (0, 0),
          ''S'' \<mapsto> (0, 0), ''E'' \<mapsto> (0, 0), ''C'' \<mapsto> (0, 0)]"
  unfolding example_loaded
  by (simp add: Let_def validCategory_def truthy_def riasecCodes_def
      currentCategory_def trim_def toUpperCase_def upperChar_def isWhitespace_def
      answerValue_def likertMap_def initialScores_def fun_upd_twist)

lemma rejected_finalize:
  "finalize [''R'' \<mapsto> (0, 0), ''I'' \<mapsto> (2, 1), ''A'' \<mapsto> (0, 0),
          ''S'' \<mapsto> (0, 0), ''E'' \<mapsto> (0, 0), ''C'' \<mapsto> (0, 0)] =
     \<lparr>R = 0, I = 25, A = 0, S = 0, E = 0, C = 0, error = None\<rparr>"
  by (simp add: finalize_def dimensionScore_def percentage_def Math_round_def totalCount_def
      riasecCodes_def)

lemma rejected_calc:
  "calculateRIASECScores noNumber noWrite exampleDb 3 =
     (\<lparr>R = 0, I = 25, A = 0, S = 0, E = 0, C = 0, error = None\<rparr>, exampleDb)"
proof -
  have s: "findRiasecSections exampleDb \<noteq> []"
    by (simp add: findRiasecSections_def exampleDb_def)
  have l: "loadedAnswers exampleDb 3 \<noteq> []"
    by (simp add: example_loaded)
  show ?thesis
    unfolding calc_unfold scoringRows_def healed_def rejected_heal snd_conv fst_conv
      rejected_accumulate sum.case rejected_finalize
    using s l by simp
qed

text \<open>
  Claim C5, counterexample: against a store that rejects the write, question 7 of the
  example store, answered \<^verbatim>\<open>D\<close>, without a category and in the section of \<^verbatim>\<open>R\<close>,
  gets no category and its answer is not scored: the store is unchanged and \<^verbatim>\<open>R\<close> is 0.
\<close>

theorem rejected_write_counterexample:
  "currentCategory (la_question (loadedAnswers exampleDb 3 ! 0)) = None
   \<and> orderToRIASEC (s_order_index (la_section (loadedAnswers exampleDb 3 ! 0))) = Some ''R''
   \<and> la_answer_text (loadedAnswers exampleDb 3 ! 0) = Some ''D''
   \<and> calculateRIASECScores noNumber noWrite exampleDb 3 =
       (\<lparr>R = 0, I = 25, A = 0, S = 0, E = 0, C = 0, error = None\<rparr>, exampleDb)"
  using rejected_calc
  by (simp add: example_loaded currentCategory_def truthy_def orderToRIASEC_def)

text \<open>
  Claim C5, amended. Every answered question without a valid category whose write the store
  accepts gets the code its section implies, in the store and in the row the scoring loop
  reads; one whose write the store rejects keeps its category and is scored under no code.
  The rows scored are the loaded rows re-read from the store the pass leaves, and running
  the service again on that store, which accepts the same writes, returns the same result
  and leaves the same store.
\<close>

theorem self_healing_idempotent:
  assumes "calculateRIASECScores parseFloat writeOk d testAttemptId = (res, d1)"
  shows "(\<forall>r\<in>set (loadedAnswers d testAttemptId). \<forall>c.
            \<not> validCategory (currentCategory (la_question r))
            \<and> orderToRIASEC (s_order_index (la_section r)) = Some c
            \<and> writeOk (la_question_id r)
          \<longrightarrow> questions d1 (la_question_id r) = Some ((la_question r)\<lparr>q_category := Some c\<rparr>)
              \<and> scoredUnder c (reload d1 r))
         \<and> (\<forall>r\<in>set (loadedAnswers d testAttemptId).
            \<not> validCategory (currentCategory (la_question r)) \<and> \<not> writeOk (la_question_id r)
          \<longrightarrow> questions d1 (la_question_id r) = Some (la_question r)
              \<and> reload d1 r = r \<and> (\<forall>c. \<not> scoredUnder c r))
         \<and> scoringRows writeOk d testAttemptId = map (reload d1) (loadedAnswers d testAttemptId)
         \<and> calculateRIASECScores parseFloat writeOk d1 testAttemptId = (res, d1)"
proof -
  from assms have d1: "d1 = healed writeOk d testAttemptId"
    using calc_store[of parseFloat writeOk d testAttemptId] by simp
  from assms have res: "res = fst (calculateRIASECScores parseFloat writeOk d testAttemptId)"
    by simp
  have "questions d1 (la_question_id r) = Some ((la_question r)\<lparr>q_category := Some c\<rparr>)
          \<and> scoredUnder c (reload d1 r)"
    if r: "r \<in> set (loadedAnswers d testAttemptId)"
      and inv: "\<not> validCategory (currentCategory (la_question r))"
      and c: "orderToRIASEC (s_order_index (la_section r)) = Some c"
      and ok: "writeOk (la_question_id r)" for r c
  proof -
    from r inv c have "la_question_id r \<in> toUpdate d testAttemptId"
      by (auto simp: toUpdate_iff)
    with healed_question[OF r, of writeOk] ok c
    have q: "questions d1 (la_question_id r) = Some ((la_question r)\<lparr>q_category := Some c\<rparr>)"
      by (simp add: d1)
    then have "la_question (reload d1 r) = (la_question r)\<lparr>q_category := Some c\<rparr>"
      by (simp add: reload_def)
    with orderToRIASEC_code[OF c] have "scoredUnder c (reload d1 r)"
      by (simp add: scoredUnder_def currentCategory_code validCategory_code)
    with q show ?thesis by simp
  qed
  moreover have "questions d1 (la_question_id r) = Some (la_question r)
          \<and> reload d1 r = r \<and> (\<forall>c. \<not> scoredUnder c r)"
    if r: "r \<in> set (loadedAnswers d testAttemptId)"
      and inv: "\<not> validCategory (currentCategory (la_question r))"
      and no: "\<not> writeOk (la_question_id r)" for r
  proof -
    from healed_question[OF r, of writeOk] no
    have q: "questions d1 (la_question_id r) = Some (la_question r)"
      by (simp add: d1)
    then have "reload d1 r = r" by (simp add: reload_def)
    with q inv show ?thesis by (simp add: scoredUnder_def)
  qed
  moreover have "scoringRows writeOk d testAttemptId = map (reload d1) (loadedAnswers d testAttemptId)"
    by (simp add: d1 scoringRows_reload)
  moreover have "calculateRIASECScores parseFloat writeOk d1 testAttemptId = (res, d1)"
    by (simp add: d1 res calc_twice)
  ultimately show ?thesis by blast
qed

text \<open>
  Claim C5, witness: the service run on the example store gives question 7 the category
  \<^verbatim>\<open>R\<close>, and run again on the store it left returns the same scores and store.
\<close>

theorem self_healing_idempotent_witness:
  "questions healedDb 7 =
     Some \<lparr>q_section_id = 11, q_category = Some ''R'', q_question_type = ''LIKERT_SCALE'',
            q_order_index = 1\<rparr>
   \<and> calculateRIASECScores noNumber everyWrite healedDb 3 =
       (\<lparr>R = 75, I = 25, A = 0, S = 0, E = 0, C = 0, error = None\<rparr>, healedDb)"
proof -
  note th = self_healing_idempotent[OF example_calc]
  have "calculateRIASECScores noNumber everyWrite healedDb 3 =
       (\<lparr>R = 75, I = 25, A = 0, S = 0, E = 0, C = 0, error = None\<rparr>, healedDb)"
    using th by blast
  moreover have "questions healedDb 7 =
     Some \<lparr>q_section_id = 11, q_category = Some ''R'', q_question_type = ''LIKERT_SCALE'',
            q_order_index = 1\<rparr>"
  proof -
    let ?r = "hd (loadedAnswers exampleDb 3)"
    have r: "?r \<in> set (loadedAnswers exampleDb 3)" by (simp add: example_loaded)
    have "\<not> validCategory (currentCategory (la_question ?r))
            \<and> orderToRIASEC (s_order_index (la_section ?r)) = Some ''R''
            \<and> everyWrite (la_question_id ?r)"
      by (simp add: example_loaded validCategory_def currentCategory_def truthy_def
          orderToRIASEC_def everyWrite_def)
    with th r have "questions healedDb (la_question_id ?r) = Some ((la_question ?r)\<lparr>q_category := Some ''R''\<rparr>)"
      by blast
    then show ?thesis by (simp add: example_loaded)
  qed
  ultimately show ?thesis by simp
qed



lemma likertMap_letters:
  "likertMap token =
     (if token = ''A'' then Some 1 else if token = ''B'' then Some 2
      else if token = ''C'' then Some 3 else if token = ''D'' then Some 4
      else if token = ''E'' then Some 5 else None)"
  by (simp add: likertMap_def)

text \<open>
  Claim C8. The value of an answer text is the one the specification describes: for the
  five-point kind the letter A..E of the trimmed, upper-cased text as 1..5, else 3; for the
  free-choice kind the letter, else the number \<open>parseFloat\<close> reads, else 0; for any other
  kind 0.
\<close>

theorem answer_value_extraction:
  "answerValue parseFloat kind (Some answerText) = Inr (extractValue_spec parseFloat kind answerText)"
  unfolding answerValue_def extractValue_spec_def Let_def likertMap_letters
  by (simp split: option.splits)

text \<open>Claim C8, witness: \<^verbatim>\<open>" e "\<close> on a five-point question is 5.\<close>

theorem answer_value_extraction_witness:
  "answerValue noNumber ''LIKERT_SCALE'' (Some '' e '') = Inr 5"
  using answer_value_extraction[of noNumber "''LIKERT_SCALE''" "'' e ''"]
  by (simp add: extractValue_spec_def trim_def toUpperCase_def upperChar_def isWhitespace_def)

section \<open>Properties of the ReportComposer\<close>

subsection \<open>The ranking\<close>

lemma localeCompare_sign:
  "(localeCompare a b < 0 \<longleftrightarrow> a < b) \<and> (localeCompare a b = 0 \<longleftrightarrow> a = b)
   \<and> localeCompare a b \<in> {- 1, 0, 1}"
proof (induction a b rule: localeCompare.induct)
  case (4 x xs y ys)
  have "x = y" if "of_char x = (of_char y :: nat)"
    using that by (metis char_of_char)
  with 4 show ?case
    by (auto simp: less_char_def)
qed auto

lemma localeCompare_le: "localeCompare a b \<le> 0 \<longleftrightarrow> a \<le> b"
  using localeCompare_sign[of a b] by (auto simp: le_less)

lemma notAfter_iff:
  "notAfter a b \<longleftrightarrow> e_score b < e_score a \<or> (e_score a = e_score b \<and> e_code a \<le> e_code b)"
  by (auto simp: notAfter_def compareFn_def localeCompare_le)

lemma notAfter_total: "notAfter a b \<or> notAfter b a"
  by (auto simp: notAfter_iff)

lemma notAfter_trans: "notAfter a b \<Longrightarrow> notAfter b c \<Longrightarrow> notAfter a c"
  by (auto simp: notAfter_iff)

lemma mset_insertBy: "mset (insertBy cmp x ys) = add_mset x (mset ys)"
  by (induction ys) auto

lemma mset_sortBy: "mset (sortBy cmp xs) = mset xs"
  by (induction xs) (auto simp: sortBy_def mset_insertBy)

lemma set_insertBy: "set (insertBy cmp x ys) = insert x (set ys)"
  by (induction ys) auto

lemma sorted_insertBy:
  "sorted_wrt notAfter ys \<Longrightarrow> sorted_wrt notAfter (insertBy compareFn x ys)"
proof (induction ys)
  case Nil
  then show ?case by simp
next
  case (Cons y ys)
  show ?case
  proof (cases "compareFn x y \<le> 0")
    case True
    then have "notAfter x y" by (simp add: notAfter_def)
    with Cons.prems have "\<forall>z\<in>set (y # ys). notAfter x z"
      by (auto intro: notAfter_trans)
    with True Cons.prems show ?thesis by simp
  next
    case False
    then have "notAfter y x" using notAfter_total[of x y] by (simp add: notAfter_def)
    with False Cons show ?thesis by (auto simp: set_insertBy)
  qed
qed

lemma sorted_sortBy: "sorted_wrt notAfter (sortBy compareFn xs)"
  by (induction xs) (auto simp: sortBy_def sorted_insertBy)

lemma sorted_strict:
  "sorted_wrt notAfter xs \<Longrightarrow> distinct (map e_code xs) \<Longrightarrow> sorted_wrt rankedBefore xs"
proof (induction xs)
  case Nil
  then show ?case by simp
next
  case (Cons a xs)
  have "rankedBefore a x" if "x \<in> set xs" for x
  proof -
    from Cons.prems that have "notAfter a x" "e_code a \<noteq> e_code x" by auto
    then show ?thesis by (auto simp: notAfter_iff rankedBefore_def)
  qed
  with Cons show ?case by simp
qed

lemma rankedBefore_asym: "rankedBefore a b \<Longrightarrow> \<not> rankedBefore b a"
  by (auto simp: rankedBefore_def)

lemma sorted_wrt_unique:
  assumes "\<And>a b. P a b \<Longrightarrow> \<not> P b a"
  shows "sorted_wrt P xs \<Longrightarrow> sorted_wrt P ys \<Longrightarrow> set xs = set ys \<Longrightarrow> xs = ys"
proof (induction xs arbitrary: ys)
  case Nil
  then show ?case by simp
next
  case (Cons x xs)
  then obtain y ys' where ys: "ys = y # ys'" by (cases ys) auto
  have irr: "\<not> P a a" for a using assms by blast
  have xy: "x = y"
  proof (rule ccontr)
    assume ne: "x \<noteq> y"
    with Cons.prems(3) ys have "x \<in> set ys'" "y \<in> set xs" by auto
    with Cons.prems(1,2) ys have "P y x" "P x y" by auto
    with assms show False by blast
  qed
  have "x \<notin> set xs" "y \<notin> set ys'"
    using Cons.prems(1,2) ys irr by auto
  with Cons.prems(3) ys xy have "set xs = set ys'" by auto
  with Cons.IH[of ys'] Cons.prems(1,2) ys xy show ?case by simp
qed

lemma scoreMap_codes: "map e_code (scoreMap sc) = [''R'', ''I'', ''A'', ''S'', ''E'', ''C'']"
  by (simp add: scoreMap_def)

lemma codes_distinct: "distinct (map e_code xs)" if "mset xs = mset (scoreMap sc)"
proof -
  have "mset (map e_code xs) = mset (map e_code (scoreMap sc))"
    using that by (metis mset_map)
  moreover have "distinct (map e_code (scoreMap sc))"
    by (simp add: scoreMap_codes)
  ultimately show ?thesis
    by (metis mset_eq_imp_distinct_iff)
qed

lemma sortedScores_mset: "mset (sortedScores sc) = mset (scoreMap sc)"
  by (simp add: sortedScores_def mset_sortBy)

lemma sortedScores_ranked: "sorted_wrt rankedBefore (sortedScores sc)"
  by (intro sorted_strict codes_distinct[OF sortedScores_mset])
     (simp add: sortedScores_def sorted_sortBy)

lemma sortedScores_length: "length (sortedScores sc) = 6"
proof -
  have "size (mset (sortedScores sc)) = size (mset (scoreMap sc))"
    by (simp add: sortedScores_mset)
  then show ?thesis by (simp add: scoreMap_def)
qed

text \<open>
  Claim C6. The ranking is the six entries sorted by \<open>rankedBefore\<close>: descending by
  score, a tie broken by the ascending alphabetical code. It is the only arrangement of the
  six entries in that order, and \<^verbatim>\<open>topTraits\<close> is its first three entries, each with its
  code, its label and its rounded score.
\<close>

theorem ranking_is_the_sorted_order:
  "mset (sortedScores sc) = mset (scoreMap sc)
   \<and> sorted_wrt rankedBefore (sortedScores sc)
   \<and> (\<forall>ys. mset ys = mset (scoreMap sc) \<and> sorted_wrt rankedBefore ys \<longrightarrow> ys = sortedScores sc)
   \<and> length (topTraits sc) = 3
   \<and> map t_code (topTraits sc) = map e_code (take 3 (sortedScores sc))
   \<and> map t_label (topTraits sc) = map e_label (take 3 (sortedScores sc))
   \<and> map t_score (topTraits sc) = map (\<lambda>item. Math_round (e_score item)) (take 3 (sortedScores sc))"
proof -
  have "ys = sortedScores sc" if "mset ys = mset (scoreMap sc)" "sorted_wrt rankedBefore ys" for ys
  proof -
    have "set ys = set (sortedScores sc)"
      using that(1) sortedScores_mset by (metis mset_eq_setD)
    with sorted_wrt_unique[of rankedBefore ys "sortedScores sc"] that(2) sortedScores_ranked
    show ?thesis using rankedBefore_asym by blast
  qed
  then show ?thesis
    by (simp add: sortedScores_mset sortedScores_ranked topTraits_def sortedScores_length comp_def)
qed

text \<open>
  Claim C6, witness: with five scores of 40 the ranking is \<^verbatim>\<open>A, C, E, I, R, S\<close> and the
  top traits are \<^verbatim>\<open>A, C, E\<close>.
\<close>

theorem ranking_is_the_sorted_order_witness:
  "sortedScores tieScores = tieRanking
   \<and> map t_code (topTraits tieScores) = [''A'', ''C'', ''E'']"
proof -
  have m: "mset tieRanking = mset (scoreMap tieScores)"
    by (simp add: tieRanking_def scoreMap_def tieScores_def)
  have s: "sorted_wrt rankedBefore tieRanking"
    by (simp add: tieRanking_def rankedBefore_def less_char_def)
  from ranking_is_the_sorted_order[of tieScores] m s
  have a: "tieRanking = sortedScores tieScores"
    and b: "map t_code (topTraits tieScores) = map e_code (take 3 (sortedScores tieScores))"
    by blast+
  show ?thesis
    unfolding b a[symmetric] by (simp add: tieRanking_def)
qed

subsection \<open>The decision risk\<close>







subsection \<open>The career pathways\<close>

lemma findIndex_found:
  "\<exists>x\<in>set xs. P x \<Longrightarrow>
   0 \<le> findIndex P xs \<and> findIndex P xs < int (length xs) \<and> P (xs ! nat (findIndex P xs))"
proof (induction xs)
  case Nil
  then show ?case by simp
next
  case (Cons x xs)
  show ?case
  proof (cases "P x")
    case True
    then show ?thesis by simp
  next
    case False
    with Cons.prems have "\<exists>x\<in>set xs. P x" by auto
    from Cons.IH[OF this] False show ?thesis
      by (auto simp: Let_def nat_add_distrib)
  qed
qed

lemma set_filterIdx: "set (filterIdx f xs) \<subseteq> set xs"
  by (auto simp: filterIdx_def dest: set_zip_leftD)

lemma length_filterIdx: "length (filterIdx f xs) \<le> length xs"
proof -
  have "length (filterIdx f xs) \<le> length (zip xs [0..<length xs])"
    unfolding filterIdx_def by (simp del: length_zip)
  then show ?thesis by simp
qed

lemma firstOccurrences_distinct: "distinct (filterIdx (\<lambda>v i a. indexOf a v = int i) xs)"
proof -
  let ?L = "filter (\<lambda>(v, i). indexOf xs v = int i) (zip xs [0..<length xs])"
  have "distinct ?L"
    by (intro distinct_filter distinct_zipI2) simp
  moreover have "inj_on fst (set ?L)"
    by (auto simp: inj_on_def)
  ultimately show ?thesis
    by (simp add: filterIdx_def distinct_map)
qed

lemma firstOccurrences_set: "set (filterIdx (\<lambda>v i a. indexOf a v = int i) xs) = set xs"
proof
  show "set (filterIdx (\<lambda>v i a. indexOf a v = int i) xs) \<subseteq> set xs"
    by (rule set_filterIdx)
  show "set xs \<subseteq> set (filterIdx (\<lambda>v i a. indexOf a v = int i) xs)"
  proof
    fix v assume "v \<in> set xs"
    then have "\<exists>x\<in>set xs. x = v" by simp
    from findIndex_found[OF this]
    have i: "0 \<le> indexOf xs v" "indexOf xs v < int (length xs)" "xs ! nat (indexOf xs v) = v"
      by (simp_all add: indexOf_def)
    let ?i = "nat (indexOf xs v)"
    from i have "?i < length xs" by simp
    then have "(xs ! ?i, [0..<length xs] ! ?i) \<in> set (zip xs [0..<length xs])"
      by (metis in_set_zip length_upt minus_nat.diff_0 fst_conv snd_conv)
    with i \<open>?i < length xs\<close> have "(v, ?i) \<in> set (zip xs [0..<length xs])" by simp
    moreover have "indexOf xs v = int ?i" using i by simp
    ultimately have "(v, ?i) \<in> set (filter (\<lambda>(v, i). indexOf xs v = int i) (zip xs [0..<length xs]))"
      by simp
    then show "v \<in> set (filterIdx (\<lambda>v i a. indexOf a v = int i) xs)"
      unfolding filterIdx_def by (metis fst_conv image_eqI set_map)
  qed
qed

lemma allDegrees_length: "length allDegrees = 10"
  by (simp add: allDegrees_def)

lemma allDegrees_distinct: "distinct allDegrees"
  by (simp add: allDegrees_def)

lemma allDegrees_nonempty: "[] \<notin> set allDegrees"
  by (simp add: allDegrees_def)

lemma allRoles_length: "length allRoles = 16"
  by (simp add: allRoles_def)

lemma allRoles_distinct: "distinct allRoles"
  by (simp add: allRoles_def)

lemma calculateDegree_known: "calculateDegree p s \<in> set allDegrees"
  by (simp add: calculateDegree_def allDegrees_length)

lemma padDegrees_enough: "5 \<le> length ds \<Longrightarrow> padDegrees ds = ds"
  by (subst padDegrees.simps) simp

lemma degreeList_perm:
  "distinct (degreeList t) \<and> set (degreeList t) = set allDegrees \<and> length (degreeList t) = 10"
proof -
  let ?c = "calculatedDegrees t" and ?a = "additionalDegrees t"
  have c: "distinct ?c" "set ?c \<subseteq> set allDegrees"
    by (auto simp: calculatedDegrees_def firstOccurrences_distinct firstOccurrences_set
        degreeCombinations_def calculateDegree_known)
  have d: "distinct (?c @ ?a)"
    using c allDegrees_distinct by (auto simp: additionalDegrees_def)
  have s: "set (?c @ ?a) = set allDegrees"
    using c by (auto simp: additionalDegrees_def)
  have "length (?c @ ?a) = card (set allDegrees)"
    using d s by (metis distinct_card)
  then have l: "length (?c @ ?a) = 10"
    by (simp add: distinct_card[OF allDegrees_distinct] allDegrees_length)
  then have "degreeList t = ?c @ ?a"
    by (simp add: degreeList_def padDegrees_enough)
  with d s l show ?thesis by simp
qed

lemma pickDegree_fresh:
  assumes "distinct ds" "[] \<notin> set ds" "idx < length ds"
  shows "pickDegree ds idx (set (take idx ds)) = ds ! idx"
proof -
  have ne: "ds ! idx \<noteq> []" using assms(2,3) by (metis nth_mem)
  have "ds ! idx \<notin> set (take idx ds)"
    using assms(1,3) by (auto simp: in_set_conv_nth distinct_conv_nth)
  with ne assms(3) show ?thesis
    by (simp add: pickDegree_def elemAt_def js_or_def truthy_def Let_def)
qed

lemma pathwayEntries_degrees:
  "distinct ds \<Longrightarrow> [] \<notin> set ds \<Longrightarrow> idx + length items \<le> length ds \<Longrightarrow>
   map degree (pathwayEntries ds conf items idx (set (take idx ds))) =
     take (length items) (drop idx ds)"
proof (induction items arbitrary: idx)
  case Nil
  then show ?case by simp
next
  case (Cons item items)
  then have idx: "idx < length ds" by simp
  have used: "insert (ds ! idx) (set (take idx ds)) = set (take (Suc idx) ds)"
    using idx by (simp add: take_Suc_conv_app_nth)
  have "drop idx ds = ds ! idx # drop (Suc idx) ds"
    using idx by (simp add: Cons_nth_drop_Suc)
  with Cons.IH[of "Suc idx"] Cons.prems used show ?case
    by (simp add: Let_def pickDegree_fresh[OF Cons.prems(1,2) idx])
qed

lemma length_pathwayEntries: "length (pathwayEntries ds conf items idx used) = length items"
  by (induction items arbitrary: idx used) (simp_all add: Let_def)

lemma length_roleData: "length (roleData t) \<le> 3"
  unfolding roleData_def by (rule order_trans[OF length_filterIdx]) simp

lemma unused_roles:
  "13 \<le> length (filter (\<lambda>r. r \<notin> set (map ri_role (roleData t))) allRoles)"
proof -
  let ?U = "set (map ri_role (roleData t))"
  have "distinct (filter (\<lambda>r. r \<in> ?U) allRoles)"
    using allRoles_distinct by simp
  then have "length (filter (\<lambda>r. r \<in> ?U) allRoles) = card (set (filter (\<lambda>r. r \<in> ?U) allRoles))"
    by (metis distinct_card)
  also have "\<dots> \<le> card ?U"
    by (intro card_mono) auto
  also have "\<dots> \<le> length (map ri_role (roleData t))"
    by (rule card_length)
  finally have "length (filter (\<lambda>r. r \<in> ?U) allRoles) \<le> 3"
    using length_roleData[of t] by simp
  moreover have "length (filter (\<lambda>r. r \<in> ?U) allRoles) + length (filter (\<lambda>r. r \<notin> ?U) allRoles) = 16"
    using sum_length_filter_compl[of "\<lambda>r. r \<in> ?U" allRoles] by (simp add: allRoles_length)
  ultimately show ?thesis by simp
qed

lemma length_allRoleData: "length (allRoleData t) = 5"
  using unused_roles[of t] length_roleData[of t]
  by (simp add: allRoleData_def additionalRoles_def Let_def)

lemma allRoleData_mix: "item \<in> set (allRoleData t) \<Longrightarrow> ri_riasecMix item = primaryRiasecMix t"
proof -
  assume "item \<in> set (allRoleData t)"
  then have "item \<in> set (roleData t) \<or> item \<in> set (additionalRoles t)"
    by (auto simp: allRoleData_def dest: in_set_takeD)
  then show ?thesis
  proof
    assume "item \<in> set (roleData t)"
    then show ?thesis
      using set_filterIdx by (fastforce simp: roleData_def)
  next
    assume "item \<in> set (additionalRoles t)"
    then show ?thesis
      by (auto simp: additionalRoles_def Let_def)
  qed
qed

lemma pathwayEntries_mix:
  "\<forall>item\<in>set items. ri_riasecMix item = m \<Longrightarrow> p \<in> set (pathwayEntries ds conf items idx used) \<Longrightarrow>
   riasecMix p = m
   \<and> confidence p = orDefault (label (conf m)) ''Moderate Confidence''
   \<and> confidenceLevel p = orDefault (level (conf m)) ''MODERATE''"
  by (induction items arbitrary: idx used) (auto simp: Let_def orDefault_def)

lemma confidence_levels:
  "(level (calculateConfidence m t ts sc), label (calculateConfidence m t ts sc))
     \<in> {(''HIGH'', ''High Confidence''), (''MODERATE'', ''Moderate Confidence''),
        (''LOW'', ''Low Confidence'')}"
  by (simp add: calculateConfidence_def Let_def)

lemma pathways_degrees:
  "map degree (calculateCareerPathways t sc) = take 5 (degreeList t)"
proof -
  from degreeList_perm[of t] have d: "distinct (degreeList t)" "[] \<notin> set (degreeList t)"
    "0 + length (allRoleData t) \<le> length (degreeList t)"
    by (simp_all add: allDegrees_nonempty length_allRoleData)
  from pathwayEntries_degrees[OF d, of "\<lambda>mix. calculateConfidence mix t (map e_score (take 3 (sortedScores sc))) sc"]
  show ?thesis
    by (simp add: calculateCareerPathways_def length_allRoleData)
qed

text \<open>
  Claim C7. The career-pathway list has exactly five entries, so between 1 and 5; their
  degrees are pairwise distinct; every confidence level is HIGH, MODERATE or LOW.
\<close>

theorem career_pathways_bounded:
  "length (calculateCareerPathways (top3Codes sc) sc) = 5
   \<and> 1 \<le> length (calculateCareerPathways (top3Codes sc) sc)
   \<and> length (calculateCareerPathways (top3Codes sc) sc) \<le> 5
   \<and> distinct (map degree (calculateCareerPathways (top3Codes sc) sc))
   \<and> (\<forall>p\<in>set (calculateCareerPathways (top3Codes sc) sc).
         confidenceLevel p \<in> {''HIGH'', ''MODERATE'', ''LOW''})"
proof -
  let ?t = "top3Codes sc"
  have l: "length (calculateCareerPathways ?t sc) = 5"
    by (simp add: calculateCareerPathways_def length_pathwayEntries length_allRoleData)
  have d: "distinct (map degree (calculateCareerPathways ?t sc))"
    using degreeList_perm[of ?t] by (simp add: pathways_degrees)
  have "confidenceLevel p \<in> {''HIGH'', ''MODERATE'', ''LOW''}"
    if "p \<in> set (calculateCareerPathways ?t sc)" for p
  proof -
    let ?conf = "\<lambda>mix. calculateConfidence mix ?t (map e_score (take 3 (sortedScores sc))) sc"
    from that pathwayEntries_mix[of "allRoleData ?t" "primaryRiasecMix ?t" p _ ?conf]
    have "confidenceLevel p = orDefault (level (?conf (primaryRiasecMix ?t))) ''MODERATE''"
      by (simp add: calculateCareerPathways_def allRoleData_mix)
    with confidence_levels[of "primaryRiasecMix ?t" ?t "map e_score (take 3 (sortedScores sc))" sc]
    show ?thesis by (auto simp: orDefault_def)
  qed
  with l d show ?thesis by simp
qed

lemma example_top3: "top3Codes exampleScores = [''R'', ''I'', ''A'']"
  by (simp add: top3Codes_def sortedScores_def sortBy_def scoreMap_def compareFn_def exampleScores_def)

lemma example_top3Scores: "map e_score (take 3 (sortedScores exampleScores)) = [85, 70, 10]"
  by (simp add: sortedScores_def sortBy_def scoreMap_def compareFn_def exampleScores_def)

lemma example_confidence:
  "calculateConfidence ''R-I-A'' [''R'', ''I'', ''A''] [85, 70, 10] exampleScores =
     \<lparr>level = ''HIGH'', label = ''High Confidence''\<rparr>"
  by (simp add: calculateConfidence_def Let_def elemAt_def truthy_def scoreOf_def numAt_def
      indexOf_def exampleScores_def)

text \<open>Claim C7, witness: the scores 85, 70, 10, 5, 5, 5, whose top three are \<^verbatim>\<open>R, I, A\<close>.\<close>

theorem career_pathways_bounded_witness:
  "length (calculateCareerPathways [''R'', ''I'', ''A''] exampleScores) = 5
   \<and> distinct (map degree (calculateCareerPathways [''R'', ''I'', ''A''] exampleScores))"
  using career_pathways_bounded[of exampleScores] by (simp add: example_top3)

text \<open>
  Claim C9. Every entry carries the mix string made of the three top-ranked codes joined
  by \<^verbatim>\<open>-\<close>, and any two entries of one list have the same confidence label and the
  same confidence level.
\<close>

theorem pathways_share_mix_and_confidence:
  "(\<forall>p\<in>set (calculateCareerPathways (top3Codes sc) sc).
      riasecMix p = top3Codes sc ! 0 @ ''-'' @ top3Codes sc ! 1 @ ''-'' @ top3Codes sc ! 2)
   \<and> (\<forall>p\<in>set (calculateCareerPathways (top3Codes sc) sc).
       \<forall>q\<in>set (calculateCareerPathways (top3Codes sc) sc).
         confidence p = confidence q \<and> confidenceLevel p = confidenceLevel q)
   \<and> top3Codes sc = map e_code (take 3 (sortedScores sc))
   \<and> length (top3Codes sc) = 3"
proof -
  let ?t = "top3Codes sc"
  let ?conf = "\<lambda>mix. calculateConfidence mix ?t (map e_score (take 3 (sortedScores sc))) sc"
  have "riasecMix p = primaryRiasecMix ?t
        \<and> confidence p = orDefault (label (?conf (primaryRiasecMix ?t))) ''Moderate Confidence''
        \<and> confidenceLevel p = orDefault (level (?conf (primaryRiasecMix ?t))) ''MODERATE''"
    if "p \<in> set (calculateCareerPathways ?t sc)" for p
    using that pathwayEntries_mix[of "allRoleData ?t" "primaryRiasecMix ?t" p _ ?conf]
    by (simp add: calculateCareerPathways_def allRoleData_mix)
  then show ?thesis
    by (simp add: primaryRiasecMix_def top3Codes_def sortedScores_length)
qed

text \<open>
  Claim C9, witness: for the scores 85, 70, 10, 5, 5, 5 the first entry carries
  \<^verbatim>\<open>R-I-A\<close>, and the last entry has the confidence of the first.
\<close>

theorem pathways_share_mix_and_confidence_witness:
  "riasecMix (calculateCareerPathways [''R'', ''I'', ''A''] exampleScores ! 0) = ''R-I-A''
   \<and> confidence (calculateCareerPathways [''R'', ''I'', ''A''] exampleScores ! 4) =
       confidence (calculateCareerPathways [''R'', ''I'', ''A''] exampleScores ! 0)
   \<and> confidenceLevel (calculateCareerPathways [''R'', ''I'', ''A''] exampleScores ! 4) =
       confidenceLevel (calculateCareerPathways [''R'', ''I'', ''A''] exampleScores ! 0)"
proof -
  let ?ps = "calculateCareerPathways [''R'', ''I'', ''A''] exampleScores"
  have l: "length ?ps = 5"
    by (simp add: calculateCareerPathways_def length_pathwayEntries length_allRoleData)
  then have a: "?ps ! 0 \<in> set ?ps" and b: "?ps ! 4 \<in> set ?ps"
    by simp_all
  from pathways_share_mix_and_confidence[of exampleScores] a b
  have "riasecMix (?ps ! 0) = [''R'', ''I'', ''A''] ! 0 @ ''-'' @ [''R'', ''I'', ''A''] ! 1 @ ''-'' @ [''R'', ''I'', ''A''] ! 2"
    and "confidence (?ps ! 4) = confidence (?ps ! 0)"
    and "confidenceLevel (?ps ! 4) = confidenceLevel (?ps ! 0)"
    unfolding example_top3 by blast+
  then show ?thesis by simp
qed

subsection \<open>The narrative generator\<close>

lemma handleResponse_result:
  "handleResponse parseJSON postProcess sc response = Inr (rep, err) \<Longrightarrow>
     (rep = None \<and> err \<noteq> None)
     \<or> (\<exists>r. rep = Some r \<and> err = None
            \<and> careerPathways r = Some (calculateCareerPathways (top3Codes sc) sc))"
  by (auto simp: handleResponse_def split: response_data.splits if_splits option.splits
      json.splits sum.splits)

lemma handleResponse_unusable:
  "\<not> usable parseJSON postProcess (Responded response) \<Longrightarrow>
   handleResponse parseJSON postProcess sc response = Inr (rep, err) \<Longrightarrow> rep = None \<and> err \<noteq> None"
  by (auto simp: handleResponse_def usable_def split: response_data.splits if_splits
      option.splits json.splits sum.splits)

lemma handleError_Return:
  "handleError attempt e = Return (rep, err) \<Longrightarrow> rep = None \<and> err \<noteq> None"
  by (auto simp: handleError_def split: api_error.splits if_splits)

lemma attemptLoop_result:
  "attemptLoop parseJSON postProcess sc outcomes attempt = (rep, err) \<Longrightarrow>
     (rep = None \<and> err \<noteq> None)
     \<or> (\<exists>r. rep = Some r \<and> err = None
            \<and> careerPathways r = Some (calculateCareerPathways (top3Codes sc) sc))"
proof (induction parseJSON postProcess sc outcomes attempt rule: attemptLoop.induct)
  case (1 parseJSON postProcess sc outcomes attempt)
  show ?case
  proof (cases "attempt \<le> maxRetries")
    case False
    with "1.prems" show ?thesis
      by (subst (asm) attemptLoop.simps) auto
  next
    case True
    let ?tried = "case outcomes attempt of
                    Failed err \<Rightarrow> Inl err
                  | Responded response \<Rightarrow> handleResponse parseJSON postProcess sc response"
    show ?thesis
    proof (cases ?tried)
      case (Inr result)
      with True "1.prems" have "result = (rep, err)"
        by (subst (asm) attemptLoop.simps) simp
      with Inr show ?thesis
        by (auto split: attempt_outcome.splits dest: handleResponse_result)
    next
      case (Inl e)
      show ?thesis
      proof (cases "handleError attempt e :: 'a generated step")
        case Continue
        with True Inl "1.prems"
        have "attemptLoop parseJSON postProcess sc outcomes (attempt + 1) = (rep, err)"
          by (subst (asm) attemptLoop.simps) simp
        from "1.IH"[OF True Inl Continue this] show ?thesis .
      next
        case (Return result)
        with True Inl "1.prems" have "result = (rep, err)"
          by (subst (asm) attemptLoop.simps) simp
        with Return show ?thesis
          by (auto dest: handleError_Return)
      qed
    qed
  qed
qed

lemma attemptLoop_unusable:
  "\<forall>i. attempt \<le> i \<and> i \<le> maxRetries \<longrightarrow> \<not> usable parseJSON postProcess (outcomes i) \<Longrightarrow>
   attemptLoop parseJSON postProcess sc outcomes attempt = (rep, err) \<Longrightarrow>
   rep = None \<and> err \<noteq> None"
proof (induction parseJSON postProcess sc outcomes attempt rule: attemptLoop.induct)
  case (1 parseJSON postProcess sc outcomes attempt)
  show ?case
  proof (cases "attempt \<le> maxRetries")
    case False
    with "1.prems"(2) show ?thesis
      by (subst (asm) attemptLoop.simps) auto
  next
    case True
    with "1.prems"(1) have un: "\<not> usable parseJSON postProcess (outcomes attempt)" by simp
    let ?tried = "case outcomes attempt of
                    Failed err \<Rightarrow> Inl err
                  | Responded response \<Rightarrow> handleResponse parseJSON postProcess sc response"
    show ?thesis
    proof (cases ?tried)
      case (Inr result)
      with True "1.prems"(2) have "result = (rep, err)"
        by (subst (asm) attemptLoop.simps) simp
      with Inr un show ?thesis
        by (auto split: attempt_outcome.splits dest: handleResponse_unusable)
    next
      case (Inl e)
      show ?thesis
      proof (cases "handleError attempt e :: 'a generated step")
        case Continue
        with True Inl "1.prems"(2)
        have "attemptLoop parseJSON postProcess sc outcomes (attempt + 1) = (rep, err)"
          by (subst (asm) attemptLoop.simps) simp
        moreover have "\<forall>i. attempt + 1 \<le> i \<and> i \<le> maxRetries \<longrightarrow> \<not> usable parseJSON postProcess (outcomes i)"
          using "1.prems"(1) by simp
        ultimately show ?thesis
          using "1.IH"[OF True Inl Continue] by blast
      next
        case (Return result)
        with True Inl "1.prems"(2) have "result = (rep, err)"
          by (subst (asm) attemptLoop.simps) simp
        with Return show ?thesis
          by (auto dest: handleError_Return)
      qed
    qed
  qed
qed

lemma outage_result:
  "generateRIASECReport (Some ''key'') noJson keepNarrative exampleScores outage =
     (None,
      Some ''Network error: Could not reach AI service. Please check your connection and try again.'')"
proof -
  have "attemptLoop noJson keepNarrative exampleScores outage 3 =
     (None,
      Some ''Network error: Could not reach AI service. Please check your connection and try again.'')"
    by (subst attemptLoop.simps) (simp add: maxRetries_def outage_def handleError_def)
  then have "attemptLoop noJson keepNarrative exampleScores outage 2 =
     (None,
      Some ''Network error: Could not reach AI service. Please check your connection and try again.'')"
    by (subst attemptLoop.simps) (simp add: maxRetries_def outage_def handleError_def)
  then have "attemptLoop noJson keepNarrative exampleScores outage 1 =
     (None,
      Some ''Network error: Could not reach AI service. Please check your connection and try again.'')"
    by (subst attemptLoop.simps) (simp add: maxRetries_def outage_def handleError_def)
  then have "attemptLoop noJson keepNarrative exampleScores outage 0 =
     (None,
      Some ''Network error: Could not reach AI service. Please check your connection and try again.'')"
    by (subst attemptLoop.simps) (simp add: maxRetries_def outage_def handleError_def)
  then show ?thesis
    by (simp add: generateRIASECReport_def truthy_def trim_def isWhitespace_def)
qed

lemma stripFences_example: "stripFences ''```json{}```'' = ''{}''"
  by (simp add: stripFences_def trim_def isWhitespace_def startsWith_def endsWith_def Let_def)

lemma retry_result:
  "generateRIASECReport (Some ''key'') oneReport keepNarrative exampleScores retryThenAnswer =
     (Some composedReport, None)"
proof -
  have "attemptLoop oneReport keepNarrative exampleScores retryThenAnswer 1 =
          (Some composedReport, None)"
    by (subst attemptLoop.simps)
       (simp add: maxRetries_def retryThenAnswer_def handleResponse_def stripFences_example
          oneReport_def keepNarrative_def composedReport_def)
  then have "attemptLoop oneReport keepNarrative exampleScores retryThenAnswer 0 =
          (Some composedReport, None)"
    by (subst attemptLoop.simps) (simp add: maxRetries_def retryThenAnswer_def handleError_def)
  then show ?thesis
    by (simp add: generateRIASECReport_def truthy_def trim_def isWhitespace_def)
qed

text \<open>
  Claim C3, counterexample: when no attempt reaches the generator, the composer returns
  no report at all, only the error; the deterministic sections are not returned.
\<close>

theorem narrative_failure_counterexample:
  "generateRIASECReport (Some ''key'') noJson keepNarrative exampleScores outage =
     (None,
      Some ''Network error: Could not reach AI service. Please check your connection and try again.'')"
  by (rule outage_result)

text \<open>
  Claim C3, amended. When every attempt fails (an error, a timeout, or malformed output),
  the composer returns no report and an error. It returns either a report or an error,
  never neither; and a report comes without an error and carries the career pathways
  computed locally, whatever pathway list the generator supplied.
\<close>

theorem report_or_error:
  assumes "generateRIASECReport apiKey parseJSON postProcess sc outcomes = (rep, err)"
  shows "((\<forall>i. i \<le> maxRetries \<longrightarrow> \<not> usable parseJSON postProcess (outcomes i))
            \<longrightarrow> rep = None \<and> err \<noteq> None)
         \<and> (rep = None \<longrightarrow> err \<noteq> None)
         \<and> (\<forall>r. rep = Some r \<longrightarrow>
               err = None \<and> careerPathways r = Some (calculateCareerPathways (top3Codes sc) sc))"
proof (cases "\<not> truthy apiKey \<or> trim (the apiKey) = []")
  case True
  with assms show ?thesis by (auto simp: generateRIASECReport_def)
next
  case False
  with assms have loop: "attemptLoop parseJSON postProcess sc outcomes 0 = (rep, err)"
    by (auto simp: generateRIASECReport_def)
  from attemptLoop_result[OF loop] attemptLoop_unusable[OF _ loop] show ?thesis
    by auto
qed

text \<open>
  Claim C3, witness: the generator that answers on the second attempt with an empty
  pathway list of its own; the report returned carries the five pathways computed locally.
\<close>

theorem report_or_error_witness:
  "careerPathways composedReport =
     Some (calculateCareerPathways (top3Codes exampleScores) exampleScores)
   \<and> careerPathways composedReport \<noteq> Some []"
proof -
  from report_or_error[OF retry_result]
  have c: "careerPathways composedReport =
     Some (calculateCareerPathways (top3Codes exampleScores) exampleScores)"
    by blast
  have "length (calculateCareerPathways (top3Codes exampleScores) exampleScores) = 5"
    by (simp add: calculateCareerPathways_def length_pathwayEntries length_allRoleData)
  then have "calculateCareerPathways (top3Codes exampleScores) exampleScores \<noteq> []"
    by auto
  with c show ?thesis by simp
qed

end
